theory Spec2Isabelle
  imports Complex_Main "HOL-Library.AList"
begin

section \<open>Numbers\<close>

text \<open>
  The source computes with JavaScript numbers, which are IEEE 754 doubles. Every number
  a modelled function receives (a field of an input record, a limit, a stored price) is
  a finite number and is a \<open>real\<close>. Where the source can leave the finite range from
  finite inputs (a division whose divisor may be zero, an accumulator started at
  \<open>Infinity\<close>, a read of a missing array element) the computation is carried out in
  \<open>jsnum\<close>, which adds \<open>Infinity\<close>, \<open>-Infinity\<close> and \<open>NaN\<close>. The model has one zero,
  which divides like \<open>+0\<close>.

  Risk governance, the fractal memory, the strategy pool and perception are computed
  in exact arithmetic: rounding and overflow are not modelled there. The coherence
  score of the meta-controller is computed in double arithmetic: every operation
  rounds its exact result to the nearest double (section \<open>Double arithmetic\<close>).
\<close>

datatype jsnum = Fin real | PInf | NInf | NaN

fun is_finite :: "jsnum \<Rightarrow> bool" where
  "is_finite (Fin a) = True"
| "is_finite PInf = False"
| "is_finite NInf = False"
| "is_finite NaN = False"

fun jneg :: "jsnum \<Rightarrow> jsnum" where
  "jneg (Fin a) = Fin (- a)"
| "jneg PInf = NInf"
| "jneg NInf = PInf"
| "jneg NaN = NaN"

fun jadd :: "jsnum \<Rightarrow> jsnum \<Rightarrow> jsnum" where
  "jadd (Fin a) (Fin b) = Fin (a + b)"
| "jadd NaN y = NaN"
| "jadd x NaN = NaN"
| "jadd PInf NInf = NaN"
| "jadd NInf PInf = NaN"
| "jadd PInf y = PInf"
| "jadd x PInf = PInf"
| "jadd NInf y = NInf"
| "jadd x NInf = NInf"

definition jsub :: "jsnum \<Rightarrow> jsnum \<Rightarrow> jsnum" where
  "jsub x y = jadd x (jneg y)"

fun jmul :: "jsnum \<Rightarrow> jsnum \<Rightarrow> jsnum" where
  "jmul (Fin a) (Fin b) = Fin (a * b)"
| "jmul NaN y = NaN"
| "jmul x NaN = NaN"
| "jmul PInf (Fin b) = (if 0 < b then PInf else if b < 0 then NInf else NaN)"
| "jmul NInf (Fin b) = (if 0 < b then NInf else if b < 0 then PInf else NaN)"
| "jmul (Fin a) PInf = (if 0 < a then PInf else if a < 0 then NInf else NaN)"
| "jmul (Fin a) NInf = (if 0 < a then NInf else if a < 0 then PInf else NaN)"
| "jmul PInf PInf = PInf"
| "jmul PInf NInf = NInf"
| "jmul NInf PInf = NInf"
| "jmul NInf NInf = PInf"

fun jdiv :: "jsnum \<Rightarrow> jsnum \<Rightarrow> jsnum" where
  "jdiv (Fin a) (Fin b) =
     (if b = 0 then (if a = 0 then NaN else if 0 < a then PInf else NInf)
      else Fin (a / b))"
| "jdiv NaN y = NaN"
| "jdiv x NaN = NaN"
| "jdiv (Fin a) PInf = Fin 0"
| "jdiv (Fin a) NInf = Fin 0"
| "jdiv PInf (Fin b) = (if 0 \<le> b then PInf else NInf)"
| "jdiv NInf (Fin b) = (if 0 \<le> b then NInf else PInf)"
| "jdiv PInf PInf = NaN"
| "jdiv PInf NInf = NaN"
| "jdiv NInf PInf = NaN"
| "jdiv NInf NInf = NaN"

fun jabs :: "jsnum \<Rightarrow> jsnum" where
  "jabs (Fin a) = Fin \<bar>a\<bar>"
| "jabs PInf = PInf"
| "jabs NInf = PInf"
| "jabs NaN = NaN"

text \<open>\<open>Math.sign\<close>.\<close>

fun jsign :: "jsnum \<Rightarrow> jsnum" where
  "jsign (Fin a) = Fin (sgn a)"
| "jsign PInf = Fin 1"
| "jsign NInf = Fin (- 1)"
| "jsign NaN = NaN"

text \<open>The comparisons \<open><\<close>, \<open><=\<close> and \<open>>\<close>: false as soon as one side is \<open>NaN\<close>.\<close>

fun jlt :: "jsnum \<Rightarrow> jsnum \<Rightarrow> bool" where
  "jlt (Fin a) (Fin b) = (a < b)"
| "jlt NaN y = False"
| "jlt x NaN = False"
| "jlt x NInf = False"
| "jlt PInf y = False"
| "jlt NInf y = True"
| "jlt x PInf = True"

fun jle :: "jsnum \<Rightarrow> jsnum \<Rightarrow> bool" where
  "jle (Fin a) (Fin b) = (a \<le> b)"
| "jle NaN y = False"
| "jle x NaN = False"
| "jle NInf y = True"
| "jle x PInf = True"
| "jle x NInf = False"
| "jle PInf y = False"

definition jgt :: "jsnum \<Rightarrow> jsnum \<Rightarrow> bool" where
  "jgt x y = jlt y x"

text \<open>Strict equality \<open>===\<close> on numbers: \<open>NaN\<close> equals nothing.\<close>

fun jeq :: "jsnum \<Rightarrow> jsnum \<Rightarrow> bool" where
  "jeq (Fin a) (Fin b) = (a = b)"
| "jeq PInf PInf = True"
| "jeq NInf NInf = True"
| "jeq x y = False"

text \<open>\<open>Math.min\<close> and \<open>Math.max\<close>: \<open>NaN\<close> as soon as one argument is \<open>NaN\<close>.\<close>

definition jmin :: "jsnum \<Rightarrow> jsnum \<Rightarrow> jsnum" where
  "jmin x y = (if x = NaN \<or> y = NaN then NaN else if jle x y then x else y)"

definition jmax :: "jsnum \<Rightarrow> jsnum \<Rightarrow> jsnum" where
  "jmax x y = (if x = NaN \<or> y = NaN then NaN else if jle x y then y else x)"

text \<open>Truthiness of a number, as \<open>x || 1\<close> tests it: \<open>0\<close> and \<open>NaN\<close> are falsy.\<close>

definition truthy :: "jsnum \<Rightarrow> bool" where
  "truthy x = (x \<noteq> Fin 0 \<and> x \<noteq> NaN)"


section \<open>Double arithmetic\<close>

text \<open>Rounding a real to the nearest integer, a tie to the even one.\<close>

definition rne :: "real \<Rightarrow> int" where
  "rne x = (let f = \<lfloor>x\<rfloor>; d = x - of_int f
            in if d < 1 / 2 then f else if 1 / 2 < d then f + 1
               else if even f then f else f + 1)"

text \<open>
  \<open>fl64 x\<close> is the double nearest to the real \<open>x\<close>, a tie going to the even
  significand. Around \<open>x\<close> the doubles are \<open>2\<^sup>e\<close> apart, where \<open>e\<close> is the binary
  exponent of \<open>x\<close> less the 52 fraction bits, and \<open>-1074\<close> for the subnormal numbers;
  a rounded magnitude of \<open>2\<^sup>1\<^sup>0\<^sup>2\<^sup>4\<close> or more overflows to an infinity.
\<close>

definition doubleOverflow :: real where
  "doubleOverflow = 2 powi 1024"

definition fl64 :: "real \<Rightarrow> jsnum" where
  "fl64 x =
     (if x = 0 then Fin 0
      else let e = max (\<lfloor>log 2 \<bar>x\<bar>\<rfloor> - 52) (- 1074);
               y = of_int (rne (x / 2 powi e)) * 2 powi e
           in if doubleOverflow \<le> \<bar>y\<bar> then (if 0 < x then PInf else NInf) else Fin y)"

text \<open>
  The operations \<open>+\<close>, \<open>-\<close>, \<open>*\<close>, \<open>/\<close> and \<open>Math.sqrt\<close> on doubles: the exact result,
  rounded. A decimal literal of the source denotes the double nearest to it.
\<close>

definition rnd :: "jsnum \<Rightarrow> jsnum" where
  "rnd x = (case x of Fin a \<Rightarrow> fl64 a | _ \<Rightarrow> x)"

definition radd :: "jsnum \<Rightarrow> jsnum \<Rightarrow> jsnum" where
  "radd x y = rnd (jadd x y)"

definition rsub :: "jsnum \<Rightarrow> jsnum \<Rightarrow> jsnum" where
  "rsub x y = rnd (jsub x y)"

definition rmul :: "jsnum \<Rightarrow> jsnum \<Rightarrow> jsnum" where
  "rmul x y = rnd (jmul x y)"

definition rdiv :: "jsnum \<Rightarrow> jsnum \<Rightarrow> jsnum" where
  "rdiv x y = rnd (jdiv x y)"

definition rsqrt :: "jsnum \<Rightarrow> jsnum" where
  "rsqrt x = (case x of
                Fin a \<Rightarrow> if a < 0 then NaN else fl64 (sqrt a)
              | PInf \<Rightarrow> PInf
              | NInf \<Rightarrow> NaN
              | NaN \<Rightarrow> NaN)"

definition lit :: "real \<Rightarrow> jsnum" where
  "lit x = fl64 x"

text \<open>
  \<open>Math.exp\<close> and \<open>Math.pow\<close> are approximated by the engine that runs the code, and
  the language fixes their results only at special arguments. They are parameters of
  the model.
\<close>

record MathLib =
  Math_exp :: "jsnum \<Rightarrow> jsnum"
  Math_pow :: "jsnum \<Rightarrow> jsnum \<Rightarrow> jsnum"


section \<open>Mathematical utilities (utils/math)\<close>

text \<open>\<open>sigmoid\<close>, in double arithmetic.\<close>

definition sigmoid :: "MathLib \<Rightarrow> jsnum \<Rightarrow> jsnum" where
  "sigmoid lib x = rdiv (Fin 1) (radd (Fin 1) (Math_exp lib (jneg x)))"

text \<open>\<open>clamp(value, min, max) = Math.min(Math.max(value, min), max)\<close>.\<close>

definition jclamp :: "jsnum \<Rightarrow> jsnum \<Rightarrow> jsnum \<Rightarrow> jsnum" where
  "jclamp v lo hi = jmin (jmax v lo) hi"

text \<open>\<open>standardDeviation\<close>, in double arithmetic: \<open>reduce\<close> adds from the left,
  starting at \<open>0\<close>.\<close>

definition standardDeviation :: "MathLib \<Rightarrow> jsnum list \<Rightarrow> jsnum" where
  "standardDeviation lib arr =
     (if length arr = 0 then Fin 0
      else let mean = rdiv (foldl radd (Fin 0) arr) (Fin (real (length arr)));
               squareDiffs = map (\<lambda>x. Math_pow lib (rsub x mean) (Fin 2)) arr;
               avgSquareDiff = rdiv (foldl radd (Fin 0) squareDiffs) (Fin (real (length arr)))
           in rsqrt avgSquareDiff)"

text \<open>\<open>kellyCriterion\<close>: \<open>avgWin / avgLoss\<close> may be zero, so the second division may
  leave the finite range.\<close>

definition kellyCriterion :: "jsnum \<Rightarrow> jsnum \<Rightarrow> jsnum \<Rightarrow> jsnum" where
  "kellyCriterion winRate avgWin avgLoss =
     (if jeq avgLoss (Fin 0) then Fin 0
      else let winLossRatio = jdiv avgWin avgLoss
           in jsub winRate (jdiv (jsub (Fin 1) winRate) winLossRatio))"

text \<open>
  \<open>cosineSimilarity\<close>, in double arithmetic: the loop runs over the common length and
  adds each product to its sum; the division is guarded against a zero denominator
  only.
\<close>

definition cosineSimilarity :: "jsnum list \<Rightarrow> jsnum list \<Rightarrow> jsnum" where
  "cosineSimilarity a b =
     (if length a \<noteq> length b then Fin 0
      else let dotProduct = foldl (\<lambda>acc (x, y). radd acc (rmul x y)) (Fin 0) (zip a b);
               normA = foldl (\<lambda>acc x. radd acc (rmul x x)) (Fin 0) a;
               normB = foldl (\<lambda>acc y. radd acc (rmul y y)) (Fin 0) b;
               denominator = rmul (rsqrt normA) (rsqrt normB)
           in if jeq denominator (Fin 0) then Fin 0 else rdiv dotProduct denominator)"

text \<open>\<open>normalize\<close>: min-max scaling. \<open>Math.min(...[])\<close> is \<open>Infinity\<close>, but nothing
  is mapped over an empty array.\<close>

definition normalize :: "real list \<Rightarrow> real list" where
  "normalize arr =
     (if arr = [] then []
      else let mn = Min (set arr); mx = Max (set arr); range = mx - mn
           in if range = 0 then map (\<lambda>_. 0.5) arr
              else map (\<lambda>x. (x - mn) / range) arr)"


section \<open>Circular buffer (utils/circularBuffer)\<close>

text \<open>
  \<open>items\<close> is the JavaScript array \<open>new Array(capacity)\<close>: a slot that was never written
  reads as \<open>undefined\<close>, here \<open>None\<close>. With capacity \<open>0\<close> the source's \<open>% capacity\<close>
  makes \<open>head\<close> and \<open>tail\<close> \<open>NaN\<close> while \<open>count\<close> stays \<open>0\<close>, so every reader
  returns the empty array for ever; the model leaves such a buffer unchanged.
\<close>

record 'a CircularBuffer =
  items :: "nat \<rightharpoonup> 'a"
  head :: nat
  tail :: nat
  count :: nat
  capacity :: nat

definition newBuffer :: "nat \<Rightarrow> 'a CircularBuffer" where
  "newBuffer c = \<lparr>items = Map.empty, head = 0, tail = 0, count = 0, capacity = c\<rparr>"

definition add :: "'a CircularBuffer \<Rightarrow> 'a \<Rightarrow> 'a CircularBuffer" where
  "add b item =
     (if capacity b = 0 then b
      else let b1 = b\<lparr>items := (items b)(tail b \<mapsto> item)\<rparr>;
               b2 = b1\<lparr>tail := (tail b1 + 1) mod capacity b1\<rparr>
           in if count b2 < capacity b2 then b2\<lparr>count := count b2 + 1\<rparr>
              else b2\<lparr>head := (head b2 + 1) mod capacity b2\<rparr>)"

definition toArray :: "'a CircularBuffer \<Rightarrow> 'a option list" where
  "toArray b =
     map (\<lambda>i. if capacity b = 0 then None else items b ((head b + i) mod capacity b))
       [0..<count b]"

text \<open>Appending a sequence of values, one \<open>add\<close> after the other.\<close>

definition addAll :: "'a CircularBuffer \<Rightarrow> 'a list \<Rightarrow> 'a CircularBuffer" where
  "addAll b xs = foldl add b xs"

text \<open>An array all of whose elements are defined, as a list of the elements.\<close>

definition definedArray :: "'a option list \<Rightarrow> 'a list option" where
  "definedArray xs = (if None \<in> set xs then None else Some (map the xs))"


section \<open>Data model (core/types)\<close>

text \<open>
  The records keep the fields that the modelled functions read; a field name carries a
  short prefix where the source uses the same name in several interfaces.
\<close>

datatype VolatilityRegime = Low | Normal | Elevated | High | Extreme

datatype Trend = Up | Down | Sideways

datatype FlowDirection = Buying | Selling | NeutralFlow

datatype SignalDirection = Long | Short | Neutral

datatype PositionSide = LongSide | ShortSide

datatype RegimeType =
    Trending_bullish | Trending_bearish | Range_bound | Breakout | Breakdown
  | Consolidation | High_volatility | Low_volatility | Gamma_squeeze | Mean_reversion

record OptionData =
  od_strike :: real
  od_expiry :: real
  od_gamma :: real
  od_openInterest :: real

record GammaSurface =
  strikes :: "real list"
  expiries :: "real list"
  gs_values :: "real list list"
  maxGamma :: jsnum
  minGamma :: jsnum
  netGamma :: real

text \<open>An attractor's \<open>type\<close> is always \<open>gamma_max\<close> and is omitted. The number type is
  a parameter: \<open>real\<close> where the pull is an input, \<open>jsnum\<close> where it is computed.\<close>

record 'n Attractor =
  at_price :: 'n
  at_strength :: real

record 'n GravitationalPull =
  gp_direction :: real
  gp_magnitude :: 'n
  gp_attractors :: "'n Attractor list"

record LiquidityMap =
  lm_imbalance :: real
  lm_depth :: real
  lm_absorptionRate :: real

record VolatilityState =
  vs_regime :: VolatilityRegime
  vs_impliedVol :: real
  vs_volSpread :: real
  vs_volOfVol :: real
  vs_skew :: real

record DealerPositioning =
  dp_hedgingPressure :: real
  dp_flowDirection :: FlowDirection
  dp_confidence :: real

record PriceHistory =
  ph_momentum :: real
  ph_trend :: Trend
  ph_trendStrength :: real

record StructuralFeatures =
  gammaPull :: "real GravitationalPull"
  liquidityMap :: LiquidityMap
  volatilityRegime :: VolatilityState
  dealerPositioning :: DealerPositioning
  priceHistory :: PriceHistory

record Characteristics =
  ch_volatility :: VolatilityRegime
  ch_trend :: Trend
  ch_momentum :: real

record Regime =
  rg_type :: RegimeType
  rg_confidence :: real
  rg_transitionProbability :: real
  rg_characteristics :: Characteristics

text \<open>The coherence score is computed in double arithmetic; its fields are \<open>jsnum\<close>.\<close>

record Components =
  marketSystemAlignment :: jsnum
  signalConsistency :: jsnum
  timeframeHarmony :: jsnum
  patternRecognition :: jsnum

record CoherenceScore =
  cs_total :: jsnum
  cs_confidence :: jsnum
  cs_structural :: jsnum
  cs_regime :: jsnum
  cs_temporal :: jsnum
  cs_fractal :: jsnum
  cs_convergence :: jsnum
  cs_components :: Components

record StrategyTemplate =
  st_id :: string
  st_validRegimes :: "RegimeType list"
  st_activationThreshold :: real
  st_parameters :: "string \<rightharpoonup> real"

record StructuralContext =
  gammaLevel :: real

record Signal =
  sg_id :: string
  sg_direction :: SignalDirection
  sg_strength :: real
  sg_confidence :: real
  sg_entryPrice :: real
  sg_stopLoss :: real
  sg_targets :: "real list"
  sg_structuralContext :: StructuralContext

record ActiveStrategy =
  as_template :: StrategyTemplate
  as_activationScore :: real
  as_parameters :: "string \<rightharpoonup> real"
  as_currentSignal :: "Signal option"

record RiskMetrics =
  correlation :: jsnum
  gammaExposure :: real
  varContribution :: jsnum
  maxLoss :: jsnum
  marginRequired :: real

datatype Urgency = LowUrgency | MediumUrgency | HighUrgency

datatype OrderType = LimitOrder | MarketOrder

datatype TimeInForce = Day | Ioc

record ExecutionConstraints =
  maxSlippage :: jsnum
  urgency :: Urgency
  orderType :: OrderType
  icebergRatio :: real
  timeInForce :: TimeInForce

record ApprovedSignal =
  originalSignal :: Signal
  approvedSize :: jsnum
  riskMetrics :: RiskMetrics
  executionConstraints :: ExecutionConstraints
  approvalTimestamp :: nat
  riskScore :: jsnum

record Position =
  ps_side :: PositionSide
  ps_size :: real
  ps_currentPrice :: real

record Portfolio =
  positions :: "Position list"
  totalValue :: real
  marginUsed :: real
  marginAvailable :: real
  dailyPnL :: real

record TradeOutcome =
  pnl :: real

record HistoricalPattern =
  hp_id :: string
  hp_timestamp :: nat
  hp_structuralFingerprint :: "real list"
  hp_outcome :: TradeOutcome
  hp_regime :: Regime
  hp_similarity :: real

text \<open>\<open>Array.prototype.sort\<close> with a comparator is stable; \<open>gt a b\<close> says that the
  comparator is positive on \<open>(a, b)\<close>. A comparator result of \<open>NaN\<close> counts as \<open>0\<close>.\<close>

fun insertBy :: "('a \<Rightarrow> 'a \<Rightarrow> bool) \<Rightarrow> 'a \<Rightarrow> 'a list \<Rightarrow> 'a list" where
  "insertBy gt x [] = [x]"
| "insertBy gt x (y # ys) = (if gt x y then y # insertBy gt x ys else x # y # ys)"

definition sortBy :: "('a \<Rightarrow> 'a \<Rightarrow> bool) \<Rightarrow> 'a list \<Rightarrow> 'a list" where
  "sortBy gt xs = foldr (insertBy gt) xs []"


section \<open>Risk governance (RiskGovernance)\<close>

record RiskLimits =
  maxPositionSize :: real
  maxPortfolioRisk :: real
  maxCorrelation :: real
  maxDrawdown :: real
  maxDailyLoss :: real
  maxConcentration :: real

text \<open>The reason of the kill switch is a template string around a number; the model
  keeps which template it is and the number.\<close>

datatype KillReason =
    NoReason
  | MaxDrawdownExceeded jsnum
  | MaxDailyLossExceeded real
  | OtherReason string

record RiskGovernance =
  limits :: RiskLimits
  killSwitchActive :: bool
  killSwitchReason :: KillReason
  rs_dailyPnL :: real
  peakEquity :: real

definition defaultLimits :: RiskLimits where
  "defaultLimits = \<lparr>maxPositionSize = 0.1, maxPortfolioRisk = 0.02, maxCorrelation = 0.7,
     maxDrawdown = 0.15, maxDailyLoss = 0.05, maxConcentration = 0.3\<rparr>"

definition newRiskGovernance :: "RiskLimits \<Rightarrow> RiskGovernance" where
  "newRiskGovernance l = \<lparr>limits = l, killSwitchActive = False, killSwitchReason = NoReason,
     rs_dailyPnL = 0, peakEquity = 0\<rparr>"

definition activateKillSwitch :: "KillReason \<Rightarrow> RiskGovernance \<Rightarrow> RiskGovernance" where
  "activateKillSwitch reason st = st\<lparr>killSwitchActive := True, killSwitchReason := reason\<rparr>"

definition deactivateKillSwitch :: "RiskGovernance \<Rightarrow> RiskGovernance" where
  "deactivateKillSwitch st = st\<lparr>killSwitchActive := False, killSwitchReason := NoReason\<rparr>"

text \<open>\<open>updateRiskState\<close>: the drawdown divides by the peak, which is \<open>0\<close> until a
  positive total value has been seen.\<close>

definition updateRiskState :: "RiskGovernance \<Rightarrow> Portfolio \<Rightarrow> RiskGovernance" where
  "updateRiskState st portfolio =
     (let st1 = (if totalValue portfolio > peakEquity st
                 then st\<lparr>peakEquity := totalValue portfolio\<rparr> else st);
          currentDrawdown =
            jdiv (Fin (peakEquity st1 - totalValue portfolio)) (Fin (peakEquity st1));
          st2 = (if jgt currentDrawdown (Fin (maxDrawdown (limits st1)))
                 then activateKillSwitch
                        (MaxDrawdownExceeded (jmul currentDrawdown (Fin 100))) st1
                 else st1);
          st3 = st2\<lparr>rs_dailyPnL := dailyPnL portfolio\<rparr>
      in if rs_dailyPnL st3 < - maxDailyLoss (limits st3) * totalValue portfolio
         then activateKillSwitch (MaxDailyLossExceeded (rs_dailyPnL st3)) st3
         else st3)"

definition concentration :: "Portfolio \<Rightarrow> Position \<Rightarrow> jsnum" where
  "concentration portfolio position =
     jdiv (Fin \<bar>ps_size position * ps_currentPrice position\<bar>) (Fin (totalValue portfolio))"

definition checkGlobalRiskLimits :: "RiskGovernance \<Rightarrow> Portfolio \<Rightarrow> bool" where
  "checkGlobalRiskLimits st portfolio =
     (if marginAvailable portfolio < totalValue portfolio * 0.1 then False
      else \<not> list_ex (\<lambda>position.
              jgt (concentration portfolio position) (Fin (maxConcentration (limits st))))
            (positions portfolio))"

definition getVolatilityMultiplier :: "StructuralFeatures \<Rightarrow> real" where
  "getVolatilityMultiplier structuralFeatures =
     (case vs_regime (volatilityRegime structuralFeatures) of
        Low \<Rightarrow> 1.2 | Normal \<Rightarrow> 1.0 | Elevated \<Rightarrow> 0.8 | High \<Rightarrow> 0.5 | Extreme \<Rightarrow> 0.25)"

text \<open>\<open>signal.targets[0]\<close> of an empty array is \<open>undefined\<close>, which is \<open>NaN\<close> in the
  subtraction.\<close>

definition firstTarget :: "Signal \<Rightarrow> jsnum" where
  "firstTarget signal = (case sg_targets signal of [] \<Rightarrow> NaN | t # _ \<Rightarrow> Fin t)"

definition calculatePositionSize ::
  "RiskGovernance \<Rightarrow> Signal \<Rightarrow> Portfolio \<Rightarrow> StructuralFeatures \<Rightarrow> jsnum" where
  "calculatePositionSize st signal portfolio structuralFeatures =
     (let estimatedWinRate = Fin (sg_confidence signal);
          avgWin = jdiv (jabs (jsub (firstTarget signal) (Fin (sg_entryPrice signal))))
                        (Fin (sg_entryPrice signal));
          avgLoss = jdiv (Fin \<bar>sg_entryPrice signal - sg_stopLoss signal\<bar>)
                         (Fin (sg_entryPrice signal));
          kellyFraction = jclamp (kellyCriterion estimatedWinRate avgWin avgLoss)
                                 (Fin 0) (Fin 0.25);
          halfKelly = jdiv kellyFraction (Fin 2);
          volMultiplier = getVolatilityMultiplier structuralFeatures;
          baseSize = jmul (jmul (Fin (totalValue portfolio)) halfKelly) (Fin volMultiplier);
          maxSize = Fin (totalValue portfolio * maxPositionSize (limits st));
          marginConstrained = jmin baseSize (Fin (marginAvailable portfolio / 0.5))
      in jmin (jmin baseSize maxSize) marginConstrained)"

definition sameDirection :: "Signal \<Rightarrow> Position \<Rightarrow> bool" where
  "sameDirection signal p =
     ((ps_side p = LongSide \<and> sg_direction signal = Long)
      \<or> (ps_side p = ShortSide \<and> sg_direction signal = Short))"

definition calculateCorrelationRisk :: "Signal \<Rightarrow> Portfolio \<Rightarrow> jsnum" where
  "calculateCorrelationRisk signal portfolio =
     (if length (positions portfolio) = 0 then Fin 0
      else let sameDirectionPositions = filter (sameDirection signal) (positions portfolio);
               totalSameDirection =
                 foldl (\<lambda>sum p. sum + \<bar>ps_size p * ps_currentPrice p\<bar>) 0
                   sameDirectionPositions
           in jdiv (Fin totalSameDirection) (Fin (totalValue portfolio)))"

definition calculateRiskMetrics :: "Signal \<Rightarrow> Portfolio \<Rightarrow> RiskMetrics" where
  "calculateRiskMetrics signal portfolio =
     (let correlationRisk = calculateCorrelationRisk signal portfolio;
          gammaExposure' = gammaLevel (sg_structuralContext signal) * 0.01;
          signalRisk = jdiv (Fin \<bar>sg_entryPrice signal - sg_stopLoss signal\<bar>)
                            (Fin (sg_entryPrice signal));
          varContribution' = jmul signalRisk (Fin (sg_confidence signal))
      in \<lparr>correlation = correlationRisk, gammaExposure = gammaExposure',
          varContribution = varContribution', maxLoss = signalRisk,
          marginRequired = sg_entryPrice signal * 0.5\<rparr>)"

definition determineExecutionConstraints ::
  "Signal \<Rightarrow> StructuralFeatures \<Rightarrow> ExecutionConstraints" where
  "determineExecutionConstraints signal structuralFeatures =
     (let vol = volatilityRegime structuralFeatures;
          liq = liquidityMap structuralFeatures;
          urgency' = (if sg_strength signal > 0.8 \<and> vs_regime vol \<noteq> Extreme then HighUrgency
                      else if sg_strength signal > 0.5 then MediumUrgency
                      else LowUrgency);
          orderType' = (if urgency' = HighUrgency then MarketOrder
                        else if vs_regime vol = High \<or> vs_regime vol = Extreme then LimitOrder
                        else LimitOrder);
          baseSlippage = 0.001;
          volAdjustment = vs_impliedVol vol / 100;
          liquidityAdjustment = jdiv (Fin 1) (Fin (lm_depth liq + 1));
          maxSlippage' = jmul (Fin baseSlippage)
                           (jadd (Fin (1 + volAdjustment)) liquidityAdjustment)
      in \<lparr>maxSlippage = maxSlippage', urgency = urgency', orderType = orderType',
          icebergRatio = (if sg_strength signal > 0.7 then 0.2 else 0.5),
          timeInForce = (if urgency' = HighUrgency then Ioc else Day)\<rparr>)"

definition calculateRiskScore :: "RiskMetrics \<Rightarrow> StructuralFeatures \<Rightarrow> jsnum" where
  "calculateRiskScore metrics structuralFeatures =
     (let score0 = Fin 0;
          score1 = jadd score0 (jmul (correlation metrics) (Fin 0.3));
          score2 = jadd score1 (Fin (\<bar>gammaExposure metrics\<bar> * 0.001 * 0.2));
          score3 = jadd score2 (jmul (varContribution metrics) (Fin 0.3));
          volScore = (case vs_regime (volatilityRegime structuralFeatures) of
                        Extreme \<Rightarrow> 1 | High \<Rightarrow> 0.7 | Elevated \<Rightarrow> 0.4 | _ \<Rightarrow> 0.2);
          score4 = jadd score3 (Fin (volScore * 0.2))
      in jclamp score4 (Fin 0) (Fin 1))"

text \<open>The second half of \<open>applyPortfolioConstraints\<close>: the greedy pass over the
  sorted signals, with the running risk and margin.\<close>

fun acceptLoop ::
  "RiskGovernance \<Rightarrow> Portfolio \<Rightarrow> jsnum \<Rightarrow> real \<Rightarrow> ApprovedSignal list \<Rightarrow> ApprovedSignal list"
where
  "acceptLoop st portfolio totalRisk totalMargin [] = []"
| "acceptLoop st portfolio totalRisk totalMargin (signal # rest) =
     (let newTotalRisk = jadd totalRisk (varContribution (riskMetrics signal))
      in if jgt newTotalRisk (Fin (maxPortfolioRisk (limits st)))
         then acceptLoop st portfolio totalRisk totalMargin rest
         else let newMargin = totalMargin + marginRequired (riskMetrics signal)
              in if newMargin > marginAvailable portfolio + marginUsed portfolio
                 then acceptLoop st portfolio totalRisk totalMargin rest
                 else signal # acceptLoop st portfolio newTotalRisk newMargin rest)"

definition applyPortfolioConstraints ::
  "RiskGovernance \<Rightarrow> ApprovedSignal list \<Rightarrow> Portfolio \<Rightarrow> ApprovedSignal list" where
  "applyPortfolioConstraints st signals portfolio =
     (if length signals = 0 then []
      else let sorted = sortBy (\<lambda>a b. jgt (jsub (riskScore a) (riskScore b)) (Fin 0)) signals
           in acceptLoop st portfolio (Fin 0) (marginUsed portfolio) sorted)"

text \<open>The body of the loop of \<open>filterSignals\<close> for one signal: \<open>None\<close> where the
  source says \<open>continue\<close>. \<open>now\<close> is the reading of the clock.\<close>

definition approveSignal ::
  "RiskGovernance \<Rightarrow> Portfolio \<Rightarrow> StructuralFeatures \<Rightarrow> nat \<Rightarrow> Signal
   \<Rightarrow> ApprovedSignal option" where
  "approveSignal st portfolio structuralFeatures now signal =
     (let positionSize = calculatePositionSize st signal portfolio structuralFeatures
      in if jle positionSize (Fin 0) then None
         else let metrics = calculateRiskMetrics signal portfolio
              in if jgt (correlation metrics) (Fin (maxCorrelation (limits st))) then None
                 else let maxGammaExposure = totalValue portfolio * 0.01
                      in if \<bar>gammaExposure metrics\<bar> > maxGammaExposure then None
                         else Some \<lparr>originalSignal = signal,
                                    approvedSize = positionSize,
                                    riskMetrics = metrics,
                                    executionConstraints =
                                      determineExecutionConstraints signal structuralFeatures,
                                    approvalTimestamp = now,
                                    riskScore = calculateRiskScore metrics structuralFeatures\<rparr>)"

fun approveLoop ::
  "RiskGovernance \<Rightarrow> Portfolio \<Rightarrow> StructuralFeatures \<Rightarrow> nat \<Rightarrow> Signal list
   \<Rightarrow> ApprovedSignal list" where
  "approveLoop st portfolio structuralFeatures now [] = []"
| "approveLoop st portfolio structuralFeatures now (signal # rest) =
     (case approveSignal st portfolio structuralFeatures now signal of
        None \<Rightarrow> approveLoop st portfolio structuralFeatures now rest
      | Some a \<Rightarrow> a # approveLoop st portfolio structuralFeatures now rest)"

text \<open>\<open>filterSignals\<close> returns the approved signals and the risk state it leaves.\<close>

definition filterSignals ::
  "RiskGovernance \<Rightarrow> Signal list \<Rightarrow> Portfolio \<Rightarrow> StructuralFeatures \<Rightarrow> nat
   \<Rightarrow> ApprovedSignal list \<times> RiskGovernance" where
  "filterSignals st signals portfolio structuralFeatures now =
     (if killSwitchActive st then ([], st)
      else let st' = updateRiskState st portfolio
           in if \<not> checkGlobalRiskLimits st' portfolio then ([], st')
              else let approved = approveLoop st' portfolio structuralFeatures now signals
                   in (applyPortfolioConstraints st' approved portfolio, st'))"


subsection \<open>Concrete inputs\<close>

definition exampleFeatures :: StructuralFeatures where
  "exampleFeatures =
     \<lparr>gammaPull = \<lparr>gp_direction = 0, gp_magnitude = 0, gp_attractors = []\<rparr>,
      liquidityMap = \<lparr>lm_imbalance = 0, lm_depth = 1000, lm_absorptionRate = 0\<rparr>,
      volatilityRegime = \<lparr>vs_regime = Normal, vs_impliedVol = 20, vs_volSpread = 0,
                          vs_volOfVol = 0, vs_skew = 0\<rparr>,
      dealerPositioning = \<lparr>dp_hedgingPressure = 0, dp_flowDirection = NeutralFlow,
                           dp_confidence = 0\<rparr>,
      priceHistory = \<lparr>ph_momentum = 0, ph_trend = Sideways, ph_trendStrength = 0\<rparr>\<rparr>"

text \<open>A long signal at 100 with its stop at 99 and its target at 102.\<close>

definition exampleSignal :: Signal where
  "exampleSignal =
     \<lparr>sg_id = ''s1'', sg_direction = Long, sg_strength = 0.6, sg_confidence = 0.6,
      sg_entryPrice = 100, sg_stopLoss = 99, sg_targets = [102],
      sg_structuralContext = \<lparr>gammaLevel = 0\<rparr>\<rparr>"

text \<open>The same signal with full confidence and its first target at the entry price.\<close>

definition flatTargetSignal :: Signal where
  "flatTargetSignal = exampleSignal\<lparr>sg_confidence := 1, sg_targets := [100]\<rparr>"

text \<open>The orchestrator's starting portfolio, and the same portfolio after a day's
  profit of 6000 and after a day's loss of 6000.\<close>

definition startPortfolio :: Portfolio where
  "startPortfolio = \<lparr>positions = [], totalValue = 100000, marginUsed = 0,
     marginAvailable = 50000, dailyPnL = 0\<rparr>"

definition profitPortfolio :: Portfolio where
  "profitPortfolio = startPortfolio\<lparr>dailyPnL := 6000\<rparr>"

definition lossPortfolio :: Portfolio where
  "lossPortfolio = startPortfolio\<lparr>dailyPnL := - 6000\<rparr>"

text \<open>The two breaches that \<open>updateRiskState\<close> tests, on the peak it has just updated.\<close>

definition breachesDrawdown :: "RiskGovernance \<Rightarrow> Portfolio \<Rightarrow> bool" where
  "breachesDrawdown st portfolio =
     (let peak = max (peakEquity st) (totalValue portfolio)
      in jgt (jdiv (Fin (peak - totalValue portfolio)) (Fin peak))
             (Fin (maxDrawdown (limits st))))"

definition breachesDailyLoss :: "RiskGovernance \<Rightarrow> Portfolio \<Rightarrow> bool" where
  "breachesDailyLoss st portfolio =
     (dailyPnL portfolio < - maxDailyLoss (limits st) * totalValue portfolio)"


section \<open>Meta-controller: coherence (MetaController)\<close>

text \<open>
  The meta-controller computes in double arithmetic. The fields of its input are
  doubles: a concrete input gives each field the exact value of a double (the literal
  \<open>0.3\<close> is the double \<open>5404319552844595 / 2\<^sup>5\<^sup>4\<close>).
\<close>

record RegimeHistory =
  rh_regime :: Regime
  rh_timestamp :: nat
  rh_features :: "jsnum list"

record MetaController =
  regimeHistory :: "RegimeHistory CircularBuffer"
  coherenceHistory :: "jsnum CircularBuffer"
  featureHistory :: "string \<rightharpoonup> jsnum CircularBuffer"

definition featureNames :: "string list" where
  "featureNames = [''momentum'', ''volatility'', ''gamma'', ''liquidity'', ''trend'']"

definition newMetaController :: MetaController where
  "newMetaController =
     \<lparr>regimeHistory = newBuffer 100, coherenceHistory = newBuffer 100,
      featureHistory = foldl (\<lambda>m name. m(name \<mapsto> newBuffer 100)) Map.empty featureNames\<rparr>"

text \<open>The object that \<open>extractRegimeFeatures\<close> builds, its keys in the order in which
  they are written; \<open>Object.values\<close> lists the values in that order.\<close>

record RegimeFeatures =
  rf_momentum :: jsnum
  rf_trendStrength :: jsnum
  rf_volatility :: jsnum
  rf_volOfVol :: jsnum
  rf_volSpread :: jsnum
  rf_skew :: jsnum
  rf_gammaDirection :: jsnum
  rf_gammaMagnitude :: jsnum
  rf_liquidityImbalance :: jsnum
  rf_absorptionRate :: jsnum

definition extractRegimeFeatures :: "StructuralFeatures \<Rightarrow> RegimeFeatures" where
  "extractRegimeFeatures structuralFeatures =
     \<lparr>rf_momentum = Fin (ph_momentum (priceHistory structuralFeatures)),
      rf_trendStrength = Fin (ph_trendStrength (priceHistory structuralFeatures)),
      rf_volatility = rdiv (Fin (vs_impliedVol (volatilityRegime structuralFeatures))) (Fin 100),
      rf_volOfVol = Fin (vs_volOfVol (volatilityRegime structuralFeatures)),
      rf_volSpread = rdiv (Fin (vs_volSpread (volatilityRegime structuralFeatures))) (Fin 100),
      rf_skew = rdiv (Fin (vs_skew (volatilityRegime structuralFeatures))) (Fin 100),
      rf_gammaDirection = Fin (gp_direction (gammaPull structuralFeatures)),
      rf_gammaMagnitude = Fin (gp_magnitude (gammaPull structuralFeatures)),
      rf_liquidityImbalance = Fin (lm_imbalance (liquidityMap structuralFeatures)),
      rf_absorptionRate = Fin (lm_absorptionRate (liquidityMap structuralFeatures))\<rparr>"

definition objectValues :: "RegimeFeatures \<Rightarrow> jsnum list" where
  "objectValues features =
     [rf_momentum features, rf_trendStrength features, rf_volatility features,
      rf_volOfVol features, rf_volSpread features, rf_skew features,
      rf_gammaDirection features, rf_gammaMagnitude features,
      rf_liquidityImbalance features, rf_absorptionRate features]"

text \<open>\<open>this.featureHistory.get(name)?.add(v)\<close>: nothing is added where the map has no
  buffer of that name.\<close>

definition addFeature :: "MetaController \<Rightarrow> string \<Rightarrow> jsnum \<Rightarrow> MetaController" where
  "addFeature mc name v =
     (case featureHistory mc name of
        None \<Rightarrow> mc
      | Some buffer \<Rightarrow> mc\<lparr>featureHistory := (featureHistory mc)(name \<mapsto> add buffer v)\<rparr>)"

definition updateFeatureHistory :: "MetaController \<Rightarrow> RegimeFeatures \<Rightarrow> MetaController" where
  "updateFeatureHistory mc features =
     (let mc1 = addFeature mc ''momentum'' (rf_momentum features);
          mc2 = addFeature mc1 ''volatility'' (rf_volatility features);
          mc3 = addFeature mc2 ''gamma'' (rf_gammaMagnitude features);
          mc4 = addFeature mc3 ''liquidity'' (rf_liquidityImbalance features)
      in addFeature mc4 ''trend'' (rf_trendStrength features))"

text \<open>
  What \<open>classifyRegime\<close> writes: the features go to the feature histories, and the
  regime, the time and the values of the features go to the regime history. The
  regime that the method has determined and the reading of the clock are parameters
  here; \<open>calculateCoherence\<close> reads neither of them from the history.
\<close>

definition classifyRegimeWrites ::
  "MetaController \<Rightarrow> StructuralFeatures \<Rightarrow> Regime \<Rightarrow> nat \<Rightarrow> MetaController" where
  "classifyRegimeWrites mc structuralFeatures regime now =
     (let features = extractRegimeFeatures structuralFeatures;
          mc1 = updateFeatureHistory mc features
      in mc1\<lparr>regimeHistory :=
               add (regimeHistory mc1)
                 \<lparr>rh_regime = regime, rh_timestamp = now,
                  rh_features = objectValues features\<rparr>\<rparr>)"

definition calculateStructuralConsistency :: "StructuralFeatures \<Rightarrow> jsnum" where
  "calculateStructuralConsistency structuralFeatures =
     (let pull = gammaPull structuralFeatures;
          liq = liquidityMap structuralFeatures;
          hist = priceHistory structuralFeatures;
          dealer = dealerPositioning structuralFeatures;
          gammaTrendAlign =
            ((gp_direction pull > 0 \<and> ph_trend hist = Up)
             \<or> (gp_direction pull < 0 \<and> ph_trend hist = Down)
             \<or> (gp_direction pull = 0 \<and> ph_trend hist = Sideways));
          consistency1 = radd (Fin 0) (if gammaTrendAlign then Fin 1 else Fin 0);
          liquidityMomentumAlign =
            ((lm_imbalance liq > 0 \<and> ph_momentum hist > 0)
             \<or> (lm_imbalance liq < 0 \<and> ph_momentum hist < 0));
          consistency2 = radd consistency1 (if liquidityMomentumAlign then Fin 1 else lit 0.5);
          dealerFlowAlign =
            ((dp_flowDirection dealer = Buying \<and> ph_trend hist = Up)
             \<or> (dp_flowDirection dealer = Selling \<and> ph_trend hist = Down)
             \<or> dp_flowDirection dealer = NeutralFlow);
          consistency3 = radd consistency2 (if dealerFlowAlign then Fin 1 else Fin 0);
          hedgingVolAlign =
            ((\<bar>dp_hedgingPressure dealer\<bar> > 0.5)
             = (vs_regime (volatilityRegime structuralFeatures) \<noteq> Low));
          consistency4 = radd consistency3 (if hedgingVolAlign then Fin 1 else lit 0.5);
          checks = 4
      in rdiv consistency4 (Fin checks))"

definition calculateRegimeAlignment :: "Regime \<Rightarrow> ActiveStrategy list \<Rightarrow> jsnum" where
  "calculateRegimeAlignment regime activeStrategies =
     (if length activeStrategies = 0 then lit 0.5
      else let alignedCount =
                 length (filter (\<lambda>strategy.
                    rg_type regime \<in> set (st_validRegimes (as_template strategy)))
                  activeStrategies)
           in rdiv (Fin (real alignedCount)) (Fin (real (length activeStrategies))))"

text \<open>\<open>arr.slice(-n)\<close>: the last \<open>n\<close> elements.\<close>

definition sliceLast :: "nat \<Rightarrow> 'a list \<Rightarrow> 'a list" where
  "sliceLast n xs = drop (length xs - n) xs"

text \<open>
  The history of a feature: \<open>this.featureHistory.get(name)?.toArray() ?? []\<close>. The
  elements are used as numbers; a buffer with an unwritten slot below its count, which
  no sequence of \<open>add\<close> produces, is outside the model and gives \<open>None\<close>.
\<close>

definition featureArray :: "MetaController \<Rightarrow> string \<Rightarrow> jsnum list option" where
  "featureArray mc name =
     (case featureHistory mc name of
        None \<Rightarrow> Some []
      | Some buffer \<Rightarrow> definedArray (toArray buffer))"

definition calculateTemporalConsistency :: "MathLib \<Rightarrow> MetaController \<Rightarrow> jsnum option" where
  "calculateTemporalConsistency lib mc =
     (case featureArray mc ''momentum'' of
        None \<Rightarrow> None
      | Some momentumHistory \<Rightarrow>
          (case featureArray mc ''volatility'' of
             None \<Rightarrow> None
           | Some volatilityHistory \<Rightarrow>
               if length momentumHistory < 5 then Some (lit 0.5)
               else let recentMomentum = sliceLast 20 momentumHistory;
                        momentumStd = standardDeviation lib recentMomentum;
                        momentumConsistency =
                          rsub (Fin 1) (jclamp (rmul momentumStd (Fin 10)) (Fin 0) (Fin 1));
                        recentVol = sliceLast 20 volatilityHistory;
                        volStd = standardDeviation lib recentVol;
                        volConsistency =
                          rsub (Fin 1) (jclamp (rmul volStd (Fin 5)) (Fin 0) (Fin 1))
                    in Some (rdiv (radd momentumConsistency volConsistency) (Fin 2))))"

text \<open>The loop of \<open>calculateFractalSimilarity\<close>, with the running maximum. The
  maximum is returned as it is: the method has no \<open>clamp\<close>.\<close>

fun maxSimilarityLoop :: "jsnum list \<Rightarrow> jsnum \<Rightarrow> RegimeHistory list \<Rightarrow> jsnum" where
  "maxSimilarityLoop currentFeatures maxSimilarity [] = maxSimilarity"
| "maxSimilarityLoop currentFeatures maxSimilarity (historical # rest) =
     (let similarity = cosineSimilarity currentFeatures (rh_features historical)
      in maxSimilarityLoop currentFeatures
           (if jgt similarity maxSimilarity then similarity else maxSimilarity) rest)"

definition calculateFractalSimilarity ::
  "MetaController \<Rightarrow> StructuralFeatures \<Rightarrow> jsnum option" where
  "calculateFractalSimilarity mc structuralFeatures =
     (case definedArray (toArray (regimeHistory mc)) of
        None \<Rightarrow> None
      | Some history \<Rightarrow>
          if length history < 10 then Some (lit 0.5)
          else let currentFeatures = objectValues (extractRegimeFeatures structuralFeatures)
               in Some (maxSimilarityLoop currentFeatures (Fin 0) (sliceLast 50 history)))"

definition calculateSignalConvergence :: "ActiveStrategy list \<Rightarrow> jsnum" where
  "calculateSignalConvergence activeStrategies =
     (if length activeStrategies < 2 then lit 0.5
      else let signals = map (\<lambda>s. the (as_currentSignal s))
                           (filter (\<lambda>s. as_currentSignal s \<noteq> None) activeStrategies)
           in if length signals < 2 then lit 0.5
              else let longCount = length (filter (\<lambda>s. sg_direction s = Long) signals);
                       shortCount = length (filter (\<lambda>s. sg_direction s = Short) signals);
                       neutralCount = length (filter (\<lambda>s. sg_direction s = Neutral) signals);
                       maxCount = max (max longCount shortCount) neutralCount
                   in rdiv (Fin (real maxCount)) (Fin (real (length signals))))"

text \<open>\<open>calculateCoherence\<close> returns the score and the controller with the total
  appended to its coherence history. The weighted sum is added from the left.\<close>

definition calculateCoherence ::
  "MathLib \<Rightarrow> MetaController \<Rightarrow> StructuralFeatures \<Rightarrow> Regime \<Rightarrow> ActiveStrategy list
   \<Rightarrow> (CoherenceScore \<times> MetaController) option" where
  "calculateCoherence lib mc structuralFeatures regime activeStrategies =
     (let structural = calculateStructuralConsistency structuralFeatures;
          regimeAlignment = calculateRegimeAlignment regime activeStrategies
      in case calculateTemporalConsistency lib mc of
           None \<Rightarrow> None
         | Some temporal \<Rightarrow>
             (case calculateFractalSimilarity mc structuralFeatures of
                None \<Rightarrow> None
              | Some fractal \<Rightarrow>
                  let convergence = calculateSignalConvergence activeStrategies;
                      total =
                        radd (radd (radd (radd (rmul (lit 0.3) structural)
                                               (rmul (lit 0.25) regimeAlignment))
                                         (rmul (lit 0.2) temporal))
                                   (rmul (lit 0.15) fractal))
                             (rmul (lit 0.1) convergence);
                      confidence = sigmoid lib (rsub (rmul total (Fin 2)) (Fin 1));
                      coherence =
                        \<lparr>cs_total = total, cs_confidence = confidence,
                         cs_structural = structural, cs_regime = regimeAlignment,
                         cs_temporal = temporal, cs_fractal = fractal,
                         cs_convergence = convergence,
                         cs_components =
                           \<lparr>marketSystemAlignment =
                              rdiv (radd structural regimeAlignment) (Fin 2),
                            signalConsistency = convergence,
                            timeframeHarmony = temporal,
                            patternRecognition = fractal\<rparr>\<rparr>
                  in Some (coherence,
                           mc\<lparr>coherenceHistory := add (coherenceHistory mc) total\<rparr>)))"

definition exampleRegime :: Regime where
  "exampleRegime = \<lparr>rg_type = Range_bound, rg_confidence = 0.5,
     rg_transitionProbability = 0.1,
     rg_characteristics = \<lparr>ch_volatility = High, ch_trend = Sideways, ch_momentum = 0\<rparr>\<rparr>"

text \<open>
  A snapshot with \<open>trendStrength = 0.3\<close> and \<open>impliedVol = 50\<close>, every other feature
  \<open>0\<close>: its feature vector is \<open>[0, 0.3, 0.5, 0, 0, 0, 0, 0, 0, 0]\<close>. The controller
  has classified it ten times.
\<close>

definition trendSnapshot :: StructuralFeatures where
  "trendSnapshot =
     exampleFeatures\<lparr>
       priceHistory := (priceHistory exampleFeatures)\<lparr>
         ph_trendStrength := 5404319552844595 / 18014398509481984\<rparr>,
       volatilityRegime := (volatilityRegime exampleFeatures)\<lparr>vs_impliedVol := 50\<rparr>\<rparr>"

text \<open>The feature vector of the snapshot, and the entry that a classification at time
  \<open>now\<close> adds to the regime history.\<close>

definition trendVector :: "jsnum list" where
  "trendVector = [Fin 0, Fin (5404319552844595 / 18014398509481984), Fin (1 / 2),
     Fin 0, Fin 0, Fin 0, Fin 0, Fin 0, Fin 0, Fin 0]"

definition trendEntry :: "nat \<Rightarrow> RegimeHistory" where
  "trendEntry now = \<lparr>rh_regime = exampleRegime, rh_timestamp = now, rh_features = trendVector\<rparr>"

definition tenClassifications :: MetaController where
  "tenClassifications =
     foldl (\<lambda>mc now. classifyRegimeWrites mc trendSnapshot exampleRegime now)
       newMetaController [1, 2, 3, 4, 5, 6, 7, 8, 9, 10]"


section \<open>Fractal memory (FractalMemory)\<close>

record PatternFingerprint =
  pf_features :: "real list"
  pf_timestamp :: nat
  pf_regime :: RegimeType

datatype OutcomeType = Positive | Negative

record MemoryIndex =
  byRegime :: "RegimeType \<rightharpoonup> string list"
  byOutcome :: "OutcomeType \<rightharpoonup> string list"
  byTimeframe :: "nat \<rightharpoonup> string list"

text \<open>The two \<open>Map\<close>s from pattern ids keep their insertion order, which \<open>cleanup\<close>
  sorts stably: they are association lists, written with \<open>AList.update\<close> (in place for
  a known key, at the end for a new one) and \<open>AList.delete\<close>.\<close>

record FractalMemory =
  patterns :: "(string \<times> HistoricalPattern) list"
  fingerprints :: "(string \<times> PatternFingerprint) list"
  recentPatterns :: "string CircularBuffer"
  index :: MemoryIndex
  maxPatterns :: nat

definition newFractalMemory :: "nat \<Rightarrow> FractalMemory" where
  "newFractalMemory maxP =
     \<lparr>patterns = [], fingerprints = [], recentPatterns = newBuffer 1000,
      index = \<lparr>byRegime = Map.empty,
               byOutcome = [Positive \<mapsto> [], Negative \<mapsto> []],
               byTimeframe = Map.empty\<rparr>,
      maxPatterns = maxP\<rparr>"

definition createFingerprint ::
  "StructuralFeatures \<Rightarrow> Regime \<Rightarrow> nat \<Rightarrow> PatternFingerprint" where
  "createFingerprint features regime now =
     (let featureVector =
            [ph_momentum (priceHistory features),
             ph_trendStrength (priceHistory features),
             vs_impliedVol (volatilityRegime features) / 100,
             vs_volSpread (volatilityRegime features) / 100,
             vs_skew (volatilityRegime features) / 100,
             gp_direction (gammaPull features),
             gp_magnitude (gammaPull features),
             lm_imbalance (liquidityMap features),
             lm_absorptionRate (liquidityMap features),
             dp_hedgingPressure (dealerPositioning features),
             dp_confidence (dealerPositioning features),
             rg_confidence regime,
             rg_transitionProbability regime]
      in \<lparr>pf_features = normalize featureVector, pf_timestamp = now,
          pf_regime = rg_type regime\<rparr>)"

definition outcomeTypeOf :: "HistoricalPattern \<Rightarrow> OutcomeType" where
  "outcomeTypeOf pattern = (if pnl (hp_outcome pattern) \<ge> 0 then Positive else Negative)"

text \<open>\<open>map.get(key) ?? []\<close>.\<close>

definition bucket :: "('k \<rightharpoonup> string list) \<Rightarrow> 'k \<Rightarrow> string list" where
  "bucket m k = (case m k of None \<Rightarrow> [] | Some ids \<Rightarrow> ids)"

definition updateIndices ::
  "FractalMemory \<Rightarrow> string \<Rightarrow> HistoricalPattern \<Rightarrow> PatternFingerprint \<Rightarrow> FractalMemory" where
  "updateIndices mem patternId pattern fingerprint =
     (let idx = index mem;
          regimePatterns = bucket (byRegime idx) (pf_regime fingerprint) @ [patternId];
          idx1 = idx\<lparr>byRegime := (byRegime idx)(pf_regime fingerprint \<mapsto> regimePatterns)\<rparr>;
          outcomeType = outcomeTypeOf pattern;
          outcomePatterns = bucket (byOutcome idx1) outcomeType @ [patternId];
          idx2 = idx1\<lparr>byOutcome := (byOutcome idx1)(outcomeType \<mapsto> outcomePatterns)\<rparr>;
          timeframe = pf_timestamp fingerprint div 3600000;
          timeframePatterns = bucket (byTimeframe idx2) timeframe @ [patternId];
          idx3 = idx2\<lparr>byTimeframe := (byTimeframe idx2)(timeframe \<mapsto> timeframePatterns)\<rparr>
      in mem\<lparr>index := idx3\<rparr>)"

text \<open>\<open>indexOf\<close> and \<open>splice(idx, 1)\<close> remove the first occurrence: \<open>remove1\<close>.\<close>

definition removePattern :: "FractalMemory \<Rightarrow> string \<Rightarrow> FractalMemory" where
  "removePattern mem patternId =
     (case map_of (patterns mem) patternId of
        None \<Rightarrow> mem
      | Some pattern \<Rightarrow>
          (case map_of (fingerprints mem) patternId of
             None \<Rightarrow> mem
           | Some fingerprint \<Rightarrow>
               let mem1 = mem\<lparr>patterns := AList.delete patternId (patterns mem),
                              fingerprints := AList.delete patternId (fingerprints mem)\<rparr>;
                   idx = index mem1;
                   idx1 = (case byRegime idx (pf_regime fingerprint) of
                             None \<Rightarrow> idx
                           | Some regimePatterns \<Rightarrow>
                               idx\<lparr>byRegime := (byRegime idx)
                                      (pf_regime fingerprint \<mapsto> remove1 patternId regimePatterns)\<rparr>);
                   outcomeType = outcomeTypeOf pattern;
                   idx2 = (case byOutcome idx1 outcomeType of
                             None \<Rightarrow> idx1
                           | Some outcomePatterns \<Rightarrow>
                               idx1\<lparr>byOutcome := (byOutcome idx1)
                                       (outcomeType \<mapsto> remove1 patternId outcomePatterns)\<rparr>)
               in mem1\<lparr>index := idx2\<rparr>))"

text \<open>\<open>arr.slice(0, end)\<close>: a negative \<open>end\<close> counts from the end of the array.\<close>

definition sliceTo :: "int \<Rightarrow> 'a list \<Rightarrow> 'a list" where
  "sliceTo end' xs =
     (if end' < 0 then take (nat (int (length xs) + end')) xs else take (nat end') xs)"

definition cleanup :: "FractalMemory \<Rightarrow> FractalMemory" where
  "cleanup mem =
     (let sortedPatterns =
            sortBy (\<lambda>a b. hp_timestamp (snd a) > hp_timestamp (snd b)) (patterns mem);
          toRemove = sliceTo (int (length (patterns mem)) - int (maxPatterns mem))
                       sortedPatterns
      in foldl removePattern mem (map fst toRemove))"

text \<open>\<open>storePattern\<close>: the generated id and the two readings of the clock (for the
  fingerprint, then for the pattern) are parameters.\<close>

definition storePattern ::
  "FractalMemory \<Rightarrow> StructuralFeatures \<Rightarrow> TradeOutcome \<Rightarrow> Regime \<Rightarrow> string \<Rightarrow> nat \<Rightarrow> nat
   \<Rightarrow> string \<times> FractalMemory" where
  "storePattern mem features outcome regime patternId fingerprintNow patternNow =
     (let fingerprint = createFingerprint features regime fingerprintNow;
          pattern = \<lparr>hp_id = patternId, hp_timestamp = patternNow,
                     hp_structuralFingerprint = pf_features fingerprint,
                     hp_outcome = outcome, hp_regime = regime, hp_similarity = 1\<rparr>;
          mem1 = mem\<lparr>patterns := AList.update patternId pattern (patterns mem),
                     fingerprints := AList.update patternId fingerprint (fingerprints mem),
                     recentPatterns := add (recentPatterns mem) patternId\<rparr>;
          mem2 = updateIndices mem1 patternId pattern fingerprint;
          mem3 = (if length (patterns mem2) > maxPatterns mem2 then cleanup mem2 else mem2)
      in (patternId, mem3))"

text \<open>Five stores into a memory of capacity three, one second apart, all in the same
  hour, the same regime and with a positive outcome.\<close>

definition storeAt :: "FractalMemory \<Rightarrow> string \<Rightarrow> nat \<Rightarrow> FractalMemory" where
  "storeAt mem patternId now =
     snd (storePattern mem exampleFeatures \<lparr>pnl = 1\<rparr> exampleRegime patternId now now)"

definition fiveStores :: FractalMemory where
  "fiveStores =
     storeAt (storeAt (storeAt (storeAt (storeAt (newFractalMemory 3)
       ''pattern_1000_a'' 1000) ''pattern_2000_b'' 2000) ''pattern_3000_c'' 3000)
       ''pattern_4000_d'' 4000) ''pattern_5000_e'' 5000"


section \<open>Strategy pool: parameter adaptation (StrategyPool)\<close>

text \<open>\<open>if (params.key) params.key *= volMultiplier\<close>: the product is taken when the key
  is present with a value other than \<open>0\<close>.\<close>

definition scaleParam :: "real \<Rightarrow> string \<Rightarrow> (string \<rightharpoonup> real) \<Rightarrow> (string \<rightharpoonup> real)" where
  "scaleParam m key params =
     (case params key of
        None \<Rightarrow> params
      | Some v \<Rightarrow> if v \<noteq> 0 then params(key \<mapsto> v * m) else params)"

definition adaptParameters :: "StrategyTemplate \<Rightarrow> Regime \<Rightarrow> (string \<rightharpoonup> real)" where
  "adaptParameters template regime =
     (let params = st_parameters template;
          vol = ch_volatility (rg_characteristics regime);
          volMultiplier = (if vol = High \<or> vol = Extreme then 1.5
                           else if vol = Low then 0.7 else 1.0);
          params1 = scaleParam volMultiplier ''stopLoss'' params;
          params2 = scaleParam volMultiplier ''trailingStop'' params1;
          params3 = scaleParam volMultiplier ''targetProfit'' params2
      in params3)"

text \<open>The first default template.\<close>

definition gammaScalpTemplate :: StrategyTemplate where
  "gammaScalpTemplate =
     \<lparr>st_id = ''gamma_scalp_v1'',
      st_validRegimes = [Range_bound, Low_volatility, Consolidation],
      st_activationThreshold = 0.6,
      st_parameters = [''minGammaConcentration'' \<mapsto> 0.3, ''maxHoldingPeriod'' \<mapsto> 30,
                       ''targetProfit'' \<mapsto> 0.005, ''stopLoss'' \<mapsto> 0.003]\<rparr>"

text \<open>The multiplier table as the specification words it, for comparison with the
  source's.\<close>

definition specifiedVolatilityMultiplier :: "VolatilityRegime \<Rightarrow> real" where
  "specifiedVolatilityMultiplier vol =
     (case vol of Low \<Rightarrow> 1.2 | Normal \<Rightarrow> 1.0 | Elevated \<Rightarrow> 0.8 | High \<Rightarrow> 0.5
      | Extreme \<Rightarrow> 0.25)"


section \<open>Perception: gamma surface and gravitational pull (PerceptionMatrix)\<close>

definition cellGamma :: "OptionData list \<Rightarrow> real \<Rightarrow> real \<Rightarrow> real" where
  "cellGamma optionsChain strike expiry =
     foldl (\<lambda>totalGamma opt. totalGamma + od_gamma opt * od_openInterest opt * 100) 0
       (filter (\<lambda>opt. od_strike opt = strike \<and> od_expiry opt = expiry) optionsChain)"

text \<open>The inner loop over the strikes of one expiry, with the row built so far and the
  running \<open>maxGamma\<close>, \<open>minGamma\<close> and \<open>netGamma\<close>.\<close>

fun strikeLoop ::
  "OptionData list \<Rightarrow> real \<Rightarrow> real list \<Rightarrow> real list \<times> jsnum \<times> jsnum \<times> real
   \<Rightarrow> real list \<times> jsnum \<times> jsnum \<times> real" where
  "strikeLoop optionsChain expiry [] acc = acc"
| "strikeLoop optionsChain expiry (strike # rest) (row, mx, mn, net) =
     (let totalGamma = cellGamma optionsChain strike expiry
      in strikeLoop optionsChain expiry rest
           (row @ [totalGamma],
            (if jgt (Fin totalGamma) mx then Fin totalGamma else mx),
            (if jlt (Fin totalGamma) mn then Fin totalGamma else mn),
            net + totalGamma))"

fun expiryLoop ::
  "OptionData list \<Rightarrow> real list \<Rightarrow> real list \<Rightarrow> real list list \<times> jsnum \<times> jsnum \<times> real
   \<Rightarrow> real list list \<times> jsnum \<times> jsnum \<times> real" where
  "expiryLoop optionsChain strikes' [] acc = acc"
| "expiryLoop optionsChain strikes' (expiry # rest) (vals, mx, mn, net) =
     (case strikeLoop optionsChain expiry strikes' ([], mx, mn, net) of
        (row, mx', mn', net') \<Rightarrow>
          expiryLoop optionsChain strikes' rest (vals @ [row], mx', mn', net'))"

text \<open>\<open>[...new Set(xs)].sort((a, b) => a - b)\<close>: the distinct values in ascending
  order.\<close>

definition uniqueSorted :: "real list \<Rightarrow> real list" where
  "uniqueSorted xs = sort (remdups xs)"

definition calculateGammaSurface :: "OptionData list \<Rightarrow> real \<Rightarrow> GammaSurface" where
  "calculateGammaSurface optionsChain spotPrice =
     (let strikes' = uniqueSorted (map od_strike optionsChain);
          expiries' = uniqueSorted (map od_expiry optionsChain)
      in case expiryLoop optionsChain strikes' expiries' ([], NInf, PInf, 0) of
           (vals, mx, mn, net) \<Rightarrow>
             \<lparr>strikes = strikes', expiries = expiries', gs_values = vals,
              maxGamma = mx, minGamma = mn, netGamma = net\<rparr>)"

text \<open>\<open>gammaSurface.strikes[s]\<close>: \<open>undefined\<close> beyond the array, which every later
  use turns into \<open>NaN\<close>.\<close>

definition strikeAt :: "GammaSurface \<Rightarrow> nat \<Rightarrow> jsnum" where
  "strikeAt gammaSurface s =
     (if s < length (strikes gammaSurface) then Fin (strikes gammaSurface ! s) else NaN)"

definition significant :: "GammaSurface \<Rightarrow> real \<Rightarrow> bool" where
  "significant gammaSurface gamma =
     jgt (Fin \<bar>gamma\<bar>)
         (jmul (jabs (jsub (maxGamma gammaSurface) (minGamma gammaSurface))) (Fin 0.1))"

definition rowAttractors :: "GammaSurface \<Rightarrow> real list \<Rightarrow> jsnum Attractor list" where
  "rowAttractors gammaSurface row =
     map (\<lambda>s. \<lparr>at_price = strikeAt gammaSurface s, at_strength = row ! s\<rparr>)
       (filter (\<lambda>s. significant gammaSurface (row ! s)) [0..<length row])"

text \<open>The first loop of \<open>calculateGravitationalPull\<close>. A surface with fewer rows than
  expiries makes \<open>row.length\<close> throw a \<open>TypeError\<close>: \<open>None\<close>.\<close>

definition findAttractors :: "GammaSurface \<Rightarrow> jsnum Attractor list option" where
  "findAttractors gammaSurface =
     (if length (gs_values gammaSurface) < length (expiries gammaSurface) then None
      else Some (concat (map (\<lambda>e. rowAttractors gammaSurface (gs_values gammaSurface ! e))
                          [0..<length (expiries gammaSurface)])))"

text \<open>The second loop, with the running \<open>totalPull\<close> and \<open>weightedSum\<close>.\<close>

fun pullLoop :: "real \<Rightarrow> jsnum \<times> jsnum \<Rightarrow> jsnum Attractor list \<Rightarrow> jsnum \<times> jsnum" where
  "pullLoop spotPrice acc [] = acc"
| "pullLoop spotPrice (totalPull, weightedSum) (attractor # rest) =
     (let distance = jsub (at_price attractor) (Fin spotPrice)
      in if \<not> jeq distance (Fin 0)
         then let pull = jdiv (Fin (at_strength attractor)) (jmul distance distance)
              in pullLoop spotPrice
                   (jadd totalPull (jabs pull), jadd weightedSum (jmul pull (jsign distance)))
                   rest
         else pullLoop spotPrice (totalPull, weightedSum) rest)"

definition calculateGravitationalPull ::
  "GammaSurface \<Rightarrow> real \<Rightarrow> jsnum GravitationalPull option" where
  "calculateGravitationalPull gammaSurface spotPrice =
     (case findAttractors gammaSurface of
        None \<Rightarrow> None
      | Some attractors \<Rightarrow>
          (case pullLoop spotPrice (Fin 0, Fin 0) attractors of
             (totalPull, weightedSum) \<Rightarrow>
               Some \<lparr>gp_direction = (if jgt weightedSum (Fin 0) then 1
                                     else if jlt weightedSum (Fin 0) then - 1 else 0),
                     gp_magnitude =
                       jmin (jdiv (jabs weightedSum)
                                  (if truthy totalPull then totalPull else Fin 1))
                            (Fin 1),
                     gp_attractors = take 10 attractors\<rparr>))"

text \<open>An options chain with one expiry and eleven strikes, \<open>100\<close> to \<open>110\<close>; every
  option has gamma \<open>1\<close>, and open interest \<open>1\<close>, but for the last strike, which has
  open interest \<open>2\<close>.\<close>

definition exampleOption :: "real \<Rightarrow> real \<Rightarrow> OptionData" where
  "exampleOption strike oi =
     \<lparr>od_strike = strike, od_expiry = 1, od_gamma = 1, od_openInterest = oi\<rparr>"

definition elevenStrikes :: "OptionData list" where
  "elevenStrikes =
     [exampleOption 100 1, exampleOption 101 1, exampleOption 102 1, exampleOption 103 1,
      exampleOption 104 1, exampleOption 105 1, exampleOption 106 1, exampleOption 107 1,
      exampleOption 108 1, exampleOption 109 1, exampleOption 110 2]"

section \<open>Ring buffer: the newest elements are kept\<close>

lemma addAll_snoc: "addAll b (xs @ [x]) = add (addAll b xs) x"
  by (simp add: addAll_def)

lemma mod_neq_of_close:
  fixes j n c :: nat
  assumes "j < n" "n - j < c"
  shows "j mod c \<noteq> n mod c"
proof
  assume "j mod c = n mod c"
  then have "c dvd n - j"
    using assms(1) by (metis less_or_eq_imp_le mod_eq_dvd_iff_nat)
  then have "c \<le> n - j"
    using assms(1) by (simp add: dvd_imp_le)
  with assms(2) show False by simp
qed

lemma addAll_new_invariant:
  assumes c: "0 < c"
  shows "capacity (addAll (newBuffer c) xs) = c
       \<and> count (addAll (newBuffer c) xs) = min (length xs) c
       \<and> tail (addAll (newBuffer c) xs) = length xs mod c
       \<and> head (addAll (newBuffer c) xs) = (length xs - min (length xs) c) mod c
       \<and> (\<forall>j. length xs - min (length xs) c \<le> j \<and> j < length xs
            \<longrightarrow> items (addAll (newBuffer c) xs) (j mod c) = Some (xs ! j))"
proof (induction xs rule: rev_induct)
  case Nil
  show ?case by (simp add: addAll_def newBuffer_def)
next
  case (snoc x xs)
  let ?b = "addAll (newBuffer c) xs"
  let ?n = "length xs"
  from snoc have cap: "capacity ?b = c" and cnt: "count ?b = min ?n c"
    and tl: "tail ?b = ?n mod c" and hd: "head ?b = (?n - min ?n c) mod c"
    and it: "\<And>j. ?n - min ?n c \<le> j \<Longrightarrow> j < ?n \<Longrightarrow> items ?b (j mod c) = Some (xs ! j)"
    by blast+
  have items': "items (add ?b x) = (items ?b)(?n mod c \<mapsto> x)"
    using c cap tl by (simp add: add_def Let_def)
  have cap': "capacity (add ?b x) = c"
    using c cap by (simp add: add_def Let_def)
  have cnt': "count (add ?b x) = min (Suc ?n) c"
    using c cap cnt by (auto simp: add_def Let_def min_def)
  have tl': "tail (add ?b x) = Suc ?n mod c"
    using c cap tl by (simp add: add_def Let_def mod_Suc_eq)
  have hd': "head (add ?b x) = (Suc ?n - min (Suc ?n) c) mod c"
  proof (cases "?n < c")
    case True
    then show ?thesis using c cap cnt hd by (simp add: add_def Let_def min_def)
  next
    case False
    then have "head (add ?b x) = ((?n - c) mod c + 1) mod c"
      using c cap cnt hd by (simp add: add_def Let_def min_def)
    also have "\<dots> = (?n - c + 1) mod c" by (simp add: mod_Suc_eq)
    also have "\<dots> = (Suc ?n - min (Suc ?n) c) mod c"
      using False by (simp add: min_def Suc_diff_le)
    finally show ?thesis .
  qed
  have it': "items (add ?b x) (j mod c) = Some ((xs @ [x]) ! j)"
    if lo: "Suc ?n - min (Suc ?n) c \<le> j" and hi: "j < Suc ?n" for j
  proof (cases "j = ?n")
    case True
    then show ?thesis by (simp add: items')
  next
    case False
    with hi have jn: "j < ?n" by simp
    from lo c have "?n - j < c" by (auto simp: min_def split: if_splits)
    with jn have "j mod c \<noteq> ?n mod c" by (rule mod_neq_of_close)
    moreover from lo have "?n - min ?n c \<le> j" by (auto simp: min_def split: if_splits)
    ultimately show ?thesis using it[of j] jn by (simp add: items' nth_append)
  qed
  show ?case
    unfolding addAll_snoc using cap' cnt' tl' hd' it' by simp
qed

lemma toArray_addAll_new:
  assumes c: "0 < c"
  shows "toArray (addAll (newBuffer c) xs) = map Some (drop (length xs - c) xs)"
proof -
  let ?b = "addAll (newBuffer c) xs"
  let ?n = "length xs"
  let ?m = "min ?n c"
  note inv = addAll_new_invariant[OF c, of xs]
  have len: "length (drop (?n - c) xs) = ?m" by (auto simp: min_def)
  have "toArray ?b = map (\<lambda>i. items ?b ((head ?b + i) mod c)) [0..<?m]"
    using inv c by (simp add: toArray_def)
  also have "\<dots> = map (\<lambda>i. Some (xs ! (?n - ?m + i))) [0..<?m]"
  proof (rule map_cong[OF refl])
    fix i assume "i \<in> set [0..<?m]"
    then have i: "i < ?m" by simp
    have "(head ?b + i) mod c = (?n - ?m + i) mod c"
      using inv by (simp add: mod_add_left_eq)
    moreover have "?n - ?m \<le> ?n - ?m + i" and "?n - ?m + i < ?n"
      using i by (auto simp: min_def split: if_splits)
    then have "items ?b ((?n - ?m + i) mod c) = Some (xs ! (?n - ?m + i))"
      using inv by blast
    ultimately show "items ?b ((head ?b + i) mod c) = Some (xs ! (?n - ?m + i))"
      by simp
  qed
  also have "\<dots> = map Some (drop (?n - c) xs)"
  proof (rule nth_equalityI)
    show "length (map (\<lambda>i. Some (xs ! (?n - ?m + i))) [0..<?m])
        = length (map Some (drop (?n - c) xs))"
      using len by simp
  next
    fix i assume "i < length (map (\<lambda>i. Some (xs ! (?n - ?m + i))) [0..<?m])"
    then have i: "i < ?m" by simp
    have "?n - ?m = ?n - c" by (auto simp: min_def)
    then show "map (\<lambda>i. Some (xs ! (?n - ?m + i))) [0..<?m] ! i
        = map Some (drop (?n - c) xs) ! i"
      using i len by simp
  qed
  finally show ?thesis .
qed

text \<open>
  Claim C9. For every capacity \<open>c \<ge> 1\<close> and every \<open>N \<ge> c\<close>, after appending the
  values \<open>0, 1, \<dots>, N - 1\<close> in this order to a fresh circular buffer of capacity \<open>c\<close>,
  \<open>toArray()\<close> is \<open>[N - c, \<dots>, N - 1]\<close>, oldest first, every element defined: each
  append beyond the capacity has overwritten the oldest element.
\<close>

theorem ring_buffer_keeps_last_capacity:
  assumes "1 \<le> c" and "c \<le> N"
  shows "toArray (addAll (newBuffer c) [0..<N]) = map Some [N - c..<N]"
proof -
  have "0 < c" using assms(1) by simp
  then have "toArray (addAll (newBuffer c) [0..<N]) = map Some (drop (N - c) [0..<N])"
    using toArray_addAll_new[of c "[0..<N]"] by simp
  then show ?thesis by simp
qed

theorem ring_buffer_keeps_last_capacity_witness:
  "(1::nat) \<le> 3 \<and> (3::nat) \<le> 5
   \<and> toArray (addAll (newBuffer 3) [0..<5]) = map Some [5 - 3..<5]"
  using ring_buffer_keeps_last_capacity[of 3 5] by simp


section \<open>Risk governance: kill switch and position size\<close>

lemma updateRiskState_limits: "limits (updateRiskState st p) = limits st"
  by (simp add: updateRiskState_def Let_def activateKillSwitch_def)

lemma updateRiskState_daily_loss:
  "breachesDailyLoss st p \<Longrightarrow> killSwitchActive (updateRiskState st p)"
  by (simp add: updateRiskState_def Let_def activateKillSwitch_def breachesDailyLoss_def)

lemma updateRiskState_drawdown:
  "breachesDrawdown st p \<Longrightarrow> killSwitchActive (updateRiskState st p)"
  by (auto simp add: updateRiskState_def Let_def activateKillSwitch_def breachesDrawdown_def
        max_def split: if_splits)

lemma snd_filterSignals:
  "snd (filterSignals st sigs p sf now)
   = (if killSwitchActive st then st else updateRiskState st p)"
  by (simp add: filterSignals_def Let_def)

text \<open>
  Claim C1. For every list of signals, every portfolio and every structural-features
  snapshot, if the kill switch is active when \<open>filterSignals\<close> is called, then
  \<open>filterSignals\<close> returns the empty list: no signal is approved. The risk state is
  left as it was.
\<close>

theorem kill_switch_active_returns_empty:
  assumes "killSwitchActive st"
  shows "filterSignals st signals portfolio structuralFeatures now = ([], st)"
  using assms by (simp add: filterSignals_def)

theorem kill_switch_active_returns_empty_witness:
  "killSwitchActive
     (activateKillSwitch (OtherReason ''manual'') (newRiskGovernance defaultLimits))
   \<and> filterSignals
       (activateKillSwitch (OtherReason ''manual'') (newRiskGovernance defaultLimits))
       [exampleSignal] startPortfolio exampleFeatures 0
     = ([], activateKillSwitch (OtherReason ''manual'') (newRiskGovernance defaultLimits))"
  using kill_switch_active_returns_empty
    [of "activateKillSwitch (OtherReason ''manual'') (newRiskGovernance defaultLimits)"
        "[exampleSignal]" startPortfolio exampleFeatures 0]
  by (simp add: activateKillSwitch_def)

text \<open>
  Claim C2, as stated: if \<open>|dailyPnL| > maxDailyLoss \<sqdot> totalValue\<close> then the risk-state
  update activates the kill switch, also for a positive \<open>dailyPnL\<close>. The source tests
  the loss only: a fresh risk state with the default limits, given a portfolio worth
  100000 with a daily profit of 6000, leaves the kill switch inactive.
\<close>

theorem daily_profit_does_not_trip_kill_switch:
  "\<bar>dailyPnL profitPortfolio\<bar>
     > maxDailyLoss (limits (newRiskGovernance defaultLimits)) * totalValue profitPortfolio
   \<and> \<not> killSwitchActive (updateRiskState (newRiskGovernance defaultLimits) profitPortfolio)"
  by (simp add: profitPortfolio_def startPortfolio_def newRiskGovernance_def
        defaultLimits_def updateRiskState_def Let_def jgt_def activateKillSwitch_def)

text \<open>
  Claim C2, amended. For every risk state and every portfolio passed to the risk-state
  update, if \<open>dailyPnL < - maxDailyLoss \<sqdot> totalValue\<close> (a daily loss beyond the limit)
  then the kill switch is active after the update.
\<close>

theorem daily_loss_trips_kill_switch:
  assumes "dailyPnL portfolio < - maxDailyLoss (limits st) * totalValue portfolio"
  shows "killSwitchActive (updateRiskState st portfolio)"
  using assms by (simp add: updateRiskState_def Let_def activateKillSwitch_def)

theorem daily_loss_trips_kill_switch_witness:
  "dailyPnL lossPortfolio
     < - maxDailyLoss (limits (newRiskGovernance defaultLimits)) * totalValue lossPortfolio
   \<and> killSwitchActive (updateRiskState (newRiskGovernance defaultLimits) lossPortfolio)"
  using daily_loss_trips_kill_switch [of lossPortfolio "newRiskGovernance defaultLimits"]
  by (simp add: lossPortfolio_def startPortfolio_def newRiskGovernance_def defaultLimits_def)

text \<open>The position size is a minimum that has the position limit among its arguments:
  it is never above the limit, and so is no approved size.\<close>

lemma jmin_not_above_right: "\<not> jgt (jmin x y) y"
  by (cases x; cases y) (simp_all add: jmin_def jgt_def)

lemma jgt_jmin_left: "jgt (jmin x y) z \<Longrightarrow> jgt x z"
  by (cases x; cases y; cases z) (auto simp: jmin_def jgt_def split: if_splits)

lemma calculatePositionSize_not_above:
  "\<not> jgt (calculatePositionSize st signal p sf)
         (Fin (totalValue p * maxPositionSize (limits st)))"
  unfolding calculatePositionSize_def Let_def
  using jgt_jmin_left jmin_not_above_right by blast

lemma set_insertBy: "set (insertBy gt x ys) = insert x (set ys)"
  by (induction ys) auto

lemma set_sortBy: "set (sortBy gt xs) = set xs"
  by (induction xs) (simp_all add: sortBy_def set_insertBy)

lemma set_acceptLoop: "set (acceptLoop st p r m xs) \<subseteq> set xs"
  by (induction xs arbitrary: r m) (auto simp: Let_def)

lemma set_applyPortfolioConstraints:
  "set (applyPortfolioConstraints st xs p) \<subseteq> set xs"
proof (cases "length xs = 0")
  case True
  then show ?thesis by (simp add: applyPortfolioConstraints_def)
next
  case False
  let ?sorted = "sortBy (\<lambda>a b. jgt (jsub (riskScore a) (riskScore b)) (Fin 0)) xs"
  have "set (acceptLoop st p (Fin 0) (marginUsed p) ?sorted) \<subseteq> set ?sorted"
    by (rule set_acceptLoop)
  then show ?thesis
    using False by (simp add: applyPortfolioConstraints_def Let_def set_sortBy)
qed

lemma approveSignal_size:
  "approveSignal st p sf now s = Some a
   \<Longrightarrow> approvedSize a = calculatePositionSize st s p sf"
  by (auto simp: approveSignal_def Let_def split: if_splits)

lemma set_approveLoop:
  "a \<in> set (approveLoop st p sf now sigs)
   \<Longrightarrow> \<exists>s \<in> set sigs. approveSignal st p sf now s = Some a"
  by (induction sigs) (auto split: option.splits)

lemma approved_size_never_above_limit:
  assumes "a \<in> set (fst (filterSignals st sigs p sf now))"
  shows "\<not> jgt (approvedSize a) (Fin (totalValue p * maxPositionSize (limits st)))"
proof -
  let ?st' = "updateRiskState st p"
  from assms
  have "a \<in> set (applyPortfolioConstraints ?st' (approveLoop ?st' p sf now sigs) p)"
    by (auto simp: filterSignals_def Let_def split: if_splits)
  then have "a \<in> set (approveLoop ?st' p sf now sigs)"
    using set_applyPortfolioConstraints by blast
  then obtain s where "approveSignal ?st' p sf now s = Some a"
    using set_approveLoop by blast
  then have "approvedSize a = calculatePositionSize ?st' s p sf"
    by (rule approveSignal_size)
  then show ?thesis
    using calculatePositionSize_not_above[of ?st' s p sf]
    by (simp add: updateRiskState_limits)
qed

text \<open>
  Claim C4: every approved signal returned by \<open>filterSignals\<close> has
  \<open>approvedSize \<le> maxPositionSize \<sqdot> totalValue\<close>. The source approves a size that is
  not a number: for a signal with confidence \<open>1\<close> whose first target is its entry
  price (entry 100, stop 99), \<open>kellyCriterion\<close> divides \<open>1 - 1\<close> by the win/loss ratio
  \<open>0\<close>, \<open>clamp\<close> and \<open>Math.min\<close> hand the \<open>NaN\<close> on, and the guard
  \<open>positionSize <= 0\<close> does not hold of it. With the default limits and the starting
  portfolio the signal is approved with size \<open>NaN\<close>, which is not \<open>\<le>\<close> the limit of
  10000.
\<close>

theorem flat_target_signal_approved_with_nan_size:
  "map approvedSize
     (fst (filterSignals (newRiskGovernance defaultLimits) [flatTargetSignal]
             startPortfolio exampleFeatures 0))
   = [NaN]
   \<and> \<not> jle NaN (Fin (maxPositionSize defaultLimits * totalValue startPortfolio))"
  by (simp add: flatTargetSignal_def exampleSignal_def exampleFeatures_def startPortfolio_def newRiskGovernance_def
        defaultLimits_def
        filterSignals_def updateRiskState_def Let_def jgt_def jsub_def jmin_def jmax_def
        jclamp_def activateKillSwitch_def checkGlobalRiskLimits_def approveSignal_def
        calculatePositionSize_def firstTarget_def kellyCriterion_def
        getVolatilityMultiplier_def calculateRiskMetrics_def calculateCorrelationRisk_def
        determineExecutionConstraints_def calculateRiskScore_def
        applyPortfolioConstraints_def sortBy_def)

text \<open>
  Claim C10. If the kill switch is inactive when \<open>filterSignals\<close> is entered and the
  portfolio breaches the drawdown or the daily-loss limit, the call activates the kill
  switch in its risk-state update, and any later call returns the empty list. The call
  itself does not look at the switch again and may approve signals: from a fresh risk
  state with the default limits, the portfolio with a daily loss of 6000 on 100000
  breaches the daily-loss limit, and the call approves the example signal with size
  10000.
\<close>

theorem breach_trips_switch_but_call_may_approve:
  assumes "\<not> killSwitchActive st"
      and "breachesDrawdown st portfolio \<or> breachesDailyLoss st portfolio"
  shows "killSwitchActive (snd (filterSignals st signals portfolio sf now))
       \<and> fst (filterSignals (snd (filterSignals st signals portfolio sf now))
                signals' portfolio' sf' now') = []
       \<and> \<not> killSwitchActive (newRiskGovernance defaultLimits)
       \<and> breachesDailyLoss (newRiskGovernance defaultLimits) lossPortfolio
       \<and> map (\<lambda>a. (sg_id (originalSignal a), approvedSize a))
           (fst (filterSignals (newRiskGovernance defaultLimits) [exampleSignal]
                   lossPortfolio exampleFeatures now))
         = [(''s1'', Fin 10000)]"
proof -
  let ?st' = "snd (filterSignals st signals portfolio sf now)"
  have active: "killSwitchActive ?st'"
    using assms updateRiskState_drawdown updateRiskState_daily_loss
    by (auto simp: snd_filterSignals)
  then have "fst (filterSignals ?st' signals' portfolio' sf' now') = []"
    by (simp add: filterSignals_def)
  moreover have "\<not> killSwitchActive (newRiskGovernance defaultLimits)"
    by (simp add: newRiskGovernance_def)
  moreover have "breachesDailyLoss (newRiskGovernance defaultLimits) lossPortfolio"
    by (simp add: breachesDailyLoss_def lossPortfolio_def startPortfolio_def
          newRiskGovernance_def defaultLimits_def)
  moreover have "map (\<lambda>a. (sg_id (originalSignal a), approvedSize a))
           (fst (filterSignals (newRiskGovernance defaultLimits) [exampleSignal]
                   lossPortfolio exampleFeatures now))
         = [(''s1'', Fin 10000)]"
    by (simp add: lossPortfolio_def exampleSignal_def exampleFeatures_def startPortfolio_def newRiskGovernance_def
        defaultLimits_def
        filterSignals_def updateRiskState_def Let_def jgt_def jsub_def jmin_def jmax_def
        jclamp_def activateKillSwitch_def checkGlobalRiskLimits_def approveSignal_def
        calculatePositionSize_def firstTarget_def kellyCriterion_def
        getVolatilityMultiplier_def calculateRiskMetrics_def calculateCorrelationRisk_def
        determineExecutionConstraints_def calculateRiskScore_def
        applyPortfolioConstraints_def sortBy_def)
  ultimately show ?thesis using active by blast
qed

theorem breach_trips_switch_but_call_may_approve_witness:
  "\<not> killSwitchActive (newRiskGovernance defaultLimits)
   \<and> (breachesDrawdown (newRiskGovernance defaultLimits) lossPortfolio
      \<or> breachesDailyLoss (newRiskGovernance defaultLimits) lossPortfolio)
   \<and> killSwitchActive
       (snd (filterSignals (newRiskGovernance defaultLimits) [exampleSignal]
               lossPortfolio exampleFeatures 0))
   \<and> fst (filterSignals
            (snd (filterSignals (newRiskGovernance defaultLimits) [exampleSignal]
                    lossPortfolio exampleFeatures 0))
            [exampleSignal] startPortfolio exampleFeatures 1) = []
   \<and> map (\<lambda>a. (sg_id (originalSignal a), approvedSize a))
       (fst (filterSignals (newRiskGovernance defaultLimits) [exampleSignal]
               lossPortfolio exampleFeatures 0))
     = [(''s1'', Fin 10000)]"
proof -
  have inactive: "\<not> killSwitchActive (newRiskGovernance defaultLimits)"
    by (simp add: newRiskGovernance_def)
  have breach: "breachesDrawdown (newRiskGovernance defaultLimits) lossPortfolio
      \<or> breachesDailyLoss (newRiskGovernance defaultLimits) lossPortfolio"
    by (simp add: breachesDailyLoss_def lossPortfolio_def startPortfolio_def
          newRiskGovernance_def defaultLimits_def)
  show ?thesis
    using inactive breach
      breach_trips_switch_but_call_may_approve
        [OF inactive breach, of "[exampleSignal]" exampleFeatures 0
           "[exampleSignal]" startPortfolio exampleFeatures 1]
    by blast
qed

section \<open>Coherence: the fractal sub-score in double arithmetic\<close>

text \<open>
  Rounding is decided by the two neighbours: a real strictly within one half of an
  integer rounds to it, and every real is within one half of what it rounds to.
\<close>

lemma rne_unique:
  assumes "of_int m - 1 / 2 < x" "x < of_int m + 1 / 2"
  shows "rne x = m"
proof (cases "of_int m \<le> x")
  case True
  then have "\<lfloor>x\<rfloor> = m" using assms by linarith
  then show ?thesis using assms by (simp add: rne_def Let_def)
next
  case False
  then have f: "\<lfloor>x\<rfloor> = m - 1" using assms by linarith
  have "1 / 2 < x - of_int (m - 1)" using assms by simp
  then show ?thesis using f by (simp add: rne_def Let_def)
qed

lemma rne_near: "of_int (rne x) \<le> x + 1 / 2 \<and> x - 1 / 2 \<le> of_int (rne x)"
proof -
  have f: "of_int \<lfloor>x\<rfloor> \<le> x" "x < of_int \<lfloor>x\<rfloor> + 1" by linarith+
  consider "rne x = \<lfloor>x\<rfloor>" "x - of_int \<lfloor>x\<rfloor> \<le> 1 / 2"
    | "rne x = \<lfloor>x\<rfloor> + 1" "1 / 2 \<le> x - of_int \<lfloor>x\<rfloor>"
    by (cases "x - of_int \<lfloor>x\<rfloor> < 1 / 2"; cases "1 / 2 < x - of_int \<lfloor>x\<rfloor>";
        cases "even \<lfloor>x\<rfloor>") (simp_all add: rne_def Let_def)
  then show ?thesis
  proof cases
    case 1
    from 1(2) f show ?thesis unfolding 1(1) by linarith
  next
    case 2
    have "real_of_int (\<lfloor>x\<rfloor> + 1) = real_of_int \<lfloor>x\<rfloor> + 1" by simp
    with 2(2) f show ?thesis unfolding 2(1) by linarith
  qed
qed

text \<open>
  How a positive real in the normal range is rounded, given its binary exponent \<open>k\<close>
  and the significand \<open>m\<close> that its quotient by \<open>2\<^sup>k\<^sup>-\<^sup>5\<^sup>2\<close> rounds to; and the same for
  a square root, whose significand is settled by comparing squares.
\<close>

lemma powr_powi: "2 powr (of_int k) = (2::real) powi k"
  by (simp add: powr_real_of_int power_int_def power_one_over inverse_eq_divide)

lemma fl64_normal:
  assumes x: "0 < x" and lo: "2 powi k \<le> x" and hi: "x < 2 powi (k + 1)"
      and k: "- 1022 \<le> k" "k \<le> 1022"
      and r: "rne (x / 2 powi (k - 52)) = m"
      and y: "y = of_int m * 2 powi (k - 52)"
  shows "fl64 x = Fin y"
proof -
  have a: "2 powr (real_of_int k) \<le> x" using lo by (simp only: powr_powi)
  have "real_of_int k + 1 = real_of_int (k + 1)" by simp
  then have b: "x < 2 powr (real_of_int k + 1)" using hi by (simp only: powr_powi)
  have "\<lfloor>log 2 x\<rfloor> = k"
    using floor_log_eq_powr_iff[of x 2 k] x a b by simp
  then have e: "max (\<lfloor>log 2 \<bar>x\<bar>\<rfloor> - 52) (- 1074) = k - 52"
    using x k by simp
  have p: "(0::real) < 2 powi (k - 52)" by simp
  have m1: "of_int m \<le> x / 2 powi (k - 52) + 1 / 2"
    and m2: "x / 2 powi (k - 52) - 1 / 2 \<le> of_int m"
    using rne_near[of "x / 2 powi (k - 52)"] r by simp_all
  have "x / 2 powi (k - 52) < 2 powi (k + 1) / 2 powi (k - 52)"
    using hi p by (simp add: divide_strict_right_mono)
  also have "2 powi (k + 1) / 2 powi (k - 52) = (2::real) powi 53"
    by (simp flip: power_int_diff)
  finally have "of_int m < (2::real) powi 53 + 1 / 2" using m1 by linarith
  then have "of_int m < (of_int (2 ^ 53) :: real) + 1 / 2" by simp
  then have "m \<le> 2 ^ 53" by linarith
  then have "(of_int m :: real) \<le> 2 powi 53" by (simp flip: of_int_le_iff)
  then have "of_int m * 2 powi (k - 52) \<le> (2::real) powi 53 * 2 powi (k - 52)"
    using p by (intro mult_right_mono) simp_all
  moreover have "(2::real) powi (53 + (k - 52)) = 2 powi 53 * 2 powi (k - 52)"
    by (rule power_int_add) simp
  moreover have "53 + (k - 52) = k + 1" by simp
  ultimately have "y \<le> (2::real) powi (k + 1)" unfolding y by (simp only:)
  also have "(2::real) powi (k + 1) < 2 powi 1024"
    using k by (intro power_int_strict_increasing) simp_all
  finally have upper: "y < doubleOverflow" by (simp only: doubleOverflow_def)
  have "0 < x / 2 powi (k - 52)" using x p by simp
  then have "- 1 / 2 < (of_int m :: real)" using m2 by linarith
  then have "0 \<le> m" by linarith
  then have "0 \<le> y" unfolding y using p by simp
  then have "\<not> doubleOverflow \<le> \<bar>y\<bar>" using upper by simp
  then show ?thesis
    using x y e r by (simp add: fl64_def Let_def)
qed

lemma fl64_sqrt:
  assumes lo: "(2 powi k)\<^sup>2 \<le> a" and hi: "a < (2 powi (k + 1))\<^sup>2"
      and k: "- 1022 \<le> k" "k \<le> 1022"
      and m: "0 < m" "((of_int m - 1 / 2) * 2 powi (k - 52))\<^sup>2 < a"
             "a < ((of_int m + 1 / 2) * 2 powi (k - 52))\<^sup>2"
      and y: "y = of_int m * 2 powi (k - 52)"
  shows "fl64 (sqrt a) = Fin y"
proof -
  have p: "(0::real) < 2 powi (k - 52)" by simp
  have pk: "(0::real) < 2 powi k" by simp
  have "0 < (2 powi k :: real)\<^sup>2" by simp
  then have a: "0 < a" using lo by linarith
  have x: "0 < sqrt a" using a by simp
  have l: "2 powi k \<le> sqrt a" using lo by (rule real_le_rsqrt)
  have h: "sqrt a < 2 powi (k + 1)" using hi by (intro real_less_lsqrt) simp_all
  have "(of_int m - 1 / 2) * 2 powi (k - 52) < sqrt a"
    using m(2) by (rule real_less_rsqrt)
  then have m1: "of_int m - 1 / 2 < sqrt a / 2 powi (k - 52)"
    using p by (simp add: pos_less_divide_eq)
  have "0 \<le> (of_int m + 1 / 2) * (2::real) powi (k - 52)" using m(1) by simp
  then have "sqrt a < (of_int m + 1 / 2) * 2 powi (k - 52)"
    using m(3) by (intro real_less_lsqrt) simp_all
  then have m2: "sqrt a / 2 powi (k - 52) < of_int m + 1 / 2"
    using p by (simp add: pos_divide_less_eq)
  have "rne (sqrt a / 2 powi (k - 52)) = m" using m1 m2 by (rule rne_unique)
  with x l h k show ?thesis using y by (rule fl64_normal)
qed

lemma fl64_zero: "fl64 0 = Fin 0"
  by (simp add: fl64_def)

text \<open>
  The operations that \<open>cosineSimilarity\<close> carries out on the vector
  \<open>[0, 0.3, 0.5, 0, 0, 0, 0, 0, 0, 0]\<close> and itself. The sum of the squares,
  \<open>0.3 * 0.3 + 0.25\<close>, lies half-way between two doubles and goes to the even one.
\<close>

lemma rmul_zero: "rmul (Fin 0) (Fin 0) = Fin 0"
  by (simp add: rmul_def rnd_def fl64_zero)

lemma radd_zero: "radd (Fin 0) (Fin 0) = Fin 0"
  by (simp add: radd_def rnd_def fl64_zero)

lemma rdiv_zero_100: "rdiv (Fin 0) (Fin 100) = Fin 0"
  by (simp add: rdiv_def rnd_def fl64_zero)

lemma rdiv_50_100: "rdiv (Fin 50) (Fin 100) = Fin (1 / 2)"
  unfolding rdiv_def rnd_def
  apply simp
  by (rule fl64_normal[where k="-1" and m=4503599627370496]) (simp_all add: rne_def Let_def)

lemma add_zero_q:
  "radd (Fin 0) (Fin (3242591731706757 / 36028797018963968))
   = Fin (3242591731706757 / 36028797018963968)"
  unfolding radd_def rnd_def
  apply simp
  by (rule fl64_normal[where k="-4" and m=6485183463413514]) (simp_all add: rne_def Let_def)

lemma mul_half_half: "rmul (Fin (1 / 2)) (Fin (1 / 2)) = Fin (1 / 4)"
  unfolding rmul_def rnd_def
  apply simp
  by (rule fl64_normal[where k="-2" and m=4503599627370496]) (simp_all add: rne_def Let_def)

lemma add_n_zero:
  "radd (Fin (3062447746611937 / 9007199254740992)) (Fin 0)
   = Fin (3062447746611937 / 9007199254740992)"
  unfolding radd_def rnd_def
  apply simp
  by (rule fl64_normal[where k="-2" and m=6124895493223874]) (simp_all add: rne_def Let_def)

lemma mul_s_s:
  "rmul (Fin (1313013639042029 / 2251799813685248)) (Fin (1313013639042029 / 2251799813685248))
   = Fin (6124895493223873 / 18014398509481984)"
  unfolding rmul_def rnd_def
  apply simp
  by (rule fl64_normal[where k="-2" and m=6124895493223873]) (simp_all add: rne_def Let_def)

lemma div_n_den:
  "rdiv (Fin (3062447746611937 / 9007199254740992)) (Fin (6124895493223873 / 18014398509481984))
   = Fin (4503599627370497 / 4503599627370496)"
  unfolding rdiv_def rnd_def
  apply simp
  by (rule fl64_normal[where k="0" and m=4503599627370497]) (simp_all add: rne_def Let_def)

lemma mul_d3_d3:
  "rmul (Fin (5404319552844595 / 18014398509481984)) (Fin (5404319552844595 / 18014398509481984))
   = Fin (3242591731706757 / 36028797018963968)"
  unfolding rmul_def jmul.simps rnd_def jsnum.case
  by (rule fl64_normal[where k="-4" and m=6485183463413514]) (simp_all add: rne_def Let_def)

lemma add_q_quarter:
  "radd (Fin (3242591731706757 / 36028797018963968)) (Fin (1 / 4))
   = Fin (3062447746611937 / 9007199254740992)"
  unfolding radd_def jadd.simps rnd_def jsnum.case
  by (rule fl64_normal[where k="-2" and m=6124895493223874]) (simp_all add: rne_def Let_def)

lemma sqrt_n:
  "rsqrt (Fin (3062447746611937 / 9007199254740992)) = Fin (1313013639042029 / 2251799813685248)"
  unfolding rsqrt_def jsnum.case
  apply simp
  by (rule fl64_sqrt[where k="-1" and m=5252054556168116]) (simp_all add: power2_eq_square)


lemma cosine_self:
  "cosineSimilarity trendVector trendVector = Fin (4503599627370497 / 4503599627370496)"
  by (simp add: cosineSimilarity_def trendVector_def Let_def rmul_zero radd_zero mul_d3_d3
        add_zero_q mul_half_half add_q_quarter add_n_zero sqrt_n mul_s_s div_n_den)

lemma features_snapshot:
  "objectValues (extractRegimeFeatures trendSnapshot) = trendVector"
  by (simp add: objectValues_def extractRegimeFeatures_def trendSnapshot_def
        exampleFeatures_def trendVector_def rdiv_zero_100 rdiv_50_100)


text \<open>The controller after any number of classifications of the snapshot.\<close>

lemma classifyRegimeWrites_step:
  assumes "featureHistory mc ''momentum'' = Some M"
      and "featureHistory mc ''volatility'' = Some V"
  shows "regimeHistory (classifyRegimeWrites mc trendSnapshot exampleRegime now)
           = add (regimeHistory mc) (trendEntry now)
         \<and> featureHistory (classifyRegimeWrites mc trendSnapshot exampleRegime now) ''momentum''
           = Some (add M (Fin 0))
         \<and> featureHistory (classifyRegimeWrites mc trendSnapshot exampleRegime now) ''volatility''
           = Some (add V (Fin (1 / 2)))"
proof -
  have f: "extractRegimeFeatures trendSnapshot =
     \<lparr>rf_momentum = Fin 0, rf_trendStrength = Fin (5404319552844595 / 18014398509481984),
      rf_volatility = Fin (1 / 2), rf_volOfVol = Fin 0, rf_volSpread = Fin 0, rf_skew = Fin 0,
      rf_gammaDirection = Fin 0, rf_gammaMagnitude = Fin 0, rf_liquidityImbalance = Fin 0,
      rf_absorptionRate = Fin 0\<rparr>"
    by (simp add: extractRegimeFeatures_def trendSnapshot_def exampleFeatures_def
          rdiv_zero_100 rdiv_50_100)
  show ?thesis
    using assms
    by (simp add: classifyRegimeWrites_def Let_def updateFeatureHistory_def addFeature_def f
          objectValues_def trendEntry_def trendVector_def split: option.splits)
qed

lemma classifications_histories:
  "regimeHistory (foldl (\<lambda>mc now. classifyRegimeWrites mc trendSnapshot exampleRegime now)
       newMetaController ts) = addAll (newBuffer 100) (map trendEntry ts)
   \<and> featureHistory (foldl (\<lambda>mc now. classifyRegimeWrites mc trendSnapshot exampleRegime now)
       newMetaController ts) ''momentum'' = Some (addAll (newBuffer 100) (map (\<lambda>_. Fin 0) ts))
   \<and> featureHistory (foldl (\<lambda>mc now. classifyRegimeWrites mc trendSnapshot exampleRegime now)
       newMetaController ts) ''volatility''
         = Some (addAll (newBuffer 100) (map (\<lambda>_. Fin (1 / 2)) ts))"
proof (induction ts rule: rev_induct)
  case Nil
  show ?case by (simp add: newMetaController_def featureNames_def addAll_def)
next
  case (snoc now ts)
  then show ?case
    using classifyRegimeWrites_step by (simp add: addAll_snoc)
qed

lemma tenClassifications_history:
  "definedArray (toArray (regimeHistory tenClassifications))
     = Some (map trendEntry [1, 2, 3, 4, 5, 6, 7, 8, 9, 10])"
  unfolding tenClassifications_def
  by (simp only: classifications_histories)
     (simp add: toArray_addAll_new definedArray_def)

lemma tenClassifications_features:
  "featureArray tenClassifications ''momentum''
     = Some (map (\<lambda>_. Fin 0) [1, 2, 3, 4, 5, 6, 7, 8, 9, 10 :: nat])"
  "featureArray tenClassifications ''volatility''
     = Some (map (\<lambda>_. Fin (1 / 2)) [1, 2, 3, 4, 5, 6, 7, 8, 9, 10 :: nat])"
  unfolding tenClassifications_def featureArray_def
  by (simp_all only: classifications_histories)
     (simp_all add: toArray_addAll_new definedArray_def)

lemma fractal_ten:
  "calculateFractalSimilarity tenClassifications trendSnapshot
     = Some (Fin (4503599627370497 / 4503599627370496))"
  by (simp add: calculateFractalSimilarity_def tenClassifications_history
        features_snapshot sliceLast_def cosine_self trendEntry_def jgt_def Let_def)

lemma temporal_ten: "\<exists>t. calculateTemporalConsistency lib tenClassifications = Some t"
  by (simp add: calculateTemporalConsistency_def tenClassifications_features Let_def)

text \<open>
  Claim C3: all five sub-scores of the coherence score are in \<open>[0, 1]\<close>. The fractal
  sub-score is the largest cosine similarity found, handed on without a clamp, and the
  history it is compared with holds the snapshot itself, stored by \<open>classifyRegime\<close>.
  For the snapshot with \<open>trendStrength = 0.3\<close> and \<open>impliedVol = 50\<close>, classified ten
  times, the quotient of the cosine similarity rounds to \<open>1 + 2\<^sup>-\<^sup>5\<^sup>2\<close>: the fractal
  sub-score of the coherence score is above \<open>1\<close>, whatever \<open>Math.exp\<close> and \<open>Math.pow\<close>
  return.
\<close>

theorem fractal_subscore_exceeds_one:
  "map_option (\<lambda>(score, mc). cs_fractal score)
     (calculateCoherence lib tenClassifications trendSnapshot exampleRegime [])
     = Some (Fin (4503599627370497 / 4503599627370496))
   \<and> jgt (Fin (4503599627370497 / 4503599627370496)) (Fin 1)"
proof -
  obtain t where "calculateTemporalConsistency lib tenClassifications = Some t"
    using temporal_ten by blast
  then show ?thesis
    by (simp add: calculateCoherence_def fractal_ten jgt_def Let_def)
qed


section \<open>Fractal memory: the indices after an eviction\<close>

text \<open>
  Claim C5: after every \<open>storePattern\<close>, also one that evicts, every pattern id in a
  bucket of the three indices (by regime, by outcome, by timeframe) refers to a stored
  pattern. \<open>removePattern\<close> takes the id out of its regime and outcome buckets and
  leaves it in its timeframe bucket. After five stores into a memory of capacity three
  the store holds the three newest patterns, the regime and outcome buckets hold
  exactly their ids, and the timeframe bucket still holds the two evicted ids.
\<close>

theorem evicted_ids_stay_in_timeframe_index:
  "map fst (patterns fiveStores)
     = [''pattern_3000_c'', ''pattern_4000_d'', ''pattern_5000_e'']
   \<and> byRegime (index fiveStores) Range_bound
     = Some [''pattern_3000_c'', ''pattern_4000_d'', ''pattern_5000_e'']
   \<and> byOutcome (index fiveStores) Positive
     = Some [''pattern_3000_c'', ''pattern_4000_d'', ''pattern_5000_e'']
   \<and> byTimeframe (index fiveStores) 0
     = Some [''pattern_1000_a'', ''pattern_2000_b'', ''pattern_3000_c'',
             ''pattern_4000_d'', ''pattern_5000_e'']"
  by (simp add: fiveStores_def storeAt_def storePattern_def updateIndices_def cleanup_def
        removePattern_def createFingerprint_def newFractalMemory_def outcomeTypeOf_def
        bucket_def sortBy_def sliceTo_def Let_def exampleRegime_def)


section \<open>Strategy pool: the multiplier of the adapted parameters\<close>

lemma scaleParam_apply:
  "scaleParam m key params k
   = (if k = key then map_option (\<lambda>v. v * m) (params k) else params k)"
  by (auto simp: scaleParam_def split: option.splits)

text \<open>
  Claim C6, as stated: the adapted parameters are the template's with \<open>stopLoss\<close>,
  \<open>trailingStop\<close> and \<open>targetProfit\<close> multiplied by \<open>1.2\<close>, \<open>1.0\<close>, \<open>0.8\<close>, \<open>0.5\<close>,
  \<open>0.25\<close> for a low, normal, elevated, high, extreme volatility. For the first default
  template (\<open>stopLoss = 0.003\<close>) in a regime of high volatility the source gives
  \<open>stopLoss = 0.0045\<close>, the claim \<open>0.0015\<close>.
\<close>

theorem adapted_stop_loss_in_high_volatility:
  "ch_volatility (rg_characteristics exampleRegime) = High
   \<and> adaptParameters gammaScalpTemplate exampleRegime ''stopLoss'' = Some 0.0045
   \<and> map_option (\<lambda>v. v * specifiedVolatilityMultiplier High)
       (st_parameters gammaScalpTemplate ''stopLoss'') = Some 0.0015"
  by (simp add: adaptParameters_def gammaScalpTemplate_def exampleRegime_def
        scaleParam_def Let_def specifiedVolatilityMultiplier_def)

text \<open>
  Claim C6, amended. For every strategy template and every regime, the parameter map
  of an activated strategy is the template's with \<open>stopLoss\<close>, \<open>trailingStop\<close> and
  \<open>targetProfit\<close>, where present, multiplied by \<open>1.5\<close> when the regime's volatility is
  high or extreme, by \<open>0.7\<close> when it is low and by \<open>1.0\<close> when it is normal or
  elevated; every other parameter is unchanged.
\<close>

theorem adapted_parameters_multiplier:
  "adaptParameters template regime k =
     (if k \<in> {''stopLoss'', ''trailingStop'', ''targetProfit''}
      then map_option
             (\<lambda>v. v * (case ch_volatility (rg_characteristics regime) of
                          Low \<Rightarrow> 0.7 | Normal \<Rightarrow> 1.0 | Elevated \<Rightarrow> 1.0
                        | High \<Rightarrow> 1.5 | Extreme \<Rightarrow> 1.5))
             (st_parameters template k)
      else st_parameters template k)"
  by (cases "ch_volatility (rg_characteristics regime)")
     (simp_all add: adaptParameters_def Let_def scaleParam_apply)


section \<open>Perception: the attractors kept and the aggregates of an empty surface\<close>

text \<open>
  Claim C7: the pull has at most ten attractors, the ten strongest of the cells whose
  absolute gamma exceeds a tenth of the surface's gamma range. The source keeps the
  first ten in scanning order (\<open>attractors.slice(0, 10)\<close>, commented "Top 10
  attractors"). For the chain of eleven strikes the surface is one row of ten cells of
  \<open>100\<close> and a last cell of \<open>200\<close>; all eleven cells are attractors; the pull keeps the
  ten cells of strength \<open>100\<close> and drops the strongest, at strike \<open>110\<close>.
\<close>

theorem first_ten_attractors_kept_not_strongest:
  "gs_values (calculateGammaSurface elevenStrikes 105)
      = [ [100, 100, 100, 100, 100, 100, 100, 100, 100, 100, 200] ]
   \<and> map_option (map (\<lambda>a. (at_price a, at_strength a)))
        (findAttractors (calculateGammaSurface elevenStrikes 105))
      = Some [(Fin 100, 100), (Fin 101, 100), (Fin 102, 100), (Fin 103, 100),
              (Fin 104, 100), (Fin 105, 100), (Fin 106, 100), (Fin 107, 100),
              (Fin 108, 100), (Fin 109, 100), (Fin 110, 200)]
   \<and> map_option (\<lambda>p. map (\<lambda>a. (at_price a, at_strength a)) (gp_attractors p))
        (calculateGravitationalPull (calculateGammaSurface elevenStrikes 105) 105)
      = Some [(Fin 100, 100), (Fin 101, 100), (Fin 102, 100), (Fin 103, 100),
              (Fin 104, 100), (Fin 105, 100), (Fin 106, 100), (Fin 107, 100),
              (Fin 108, 100), (Fin 109, 100)]"
  by (simp add: calculateGammaSurface_def uniqueSorted_def cellGamma_def
        calculateGravitationalPull_def findAttractors_def rowAttractors_def
        significant_def strikeAt_def jgt_def jsub_def jmin_def truthy_def Let_def
        elevenStrikes_def exampleOption_def)

text \<open>The number of attractors and the direction are as the claim says.\<close>

lemma pull_count_and_direction:
  assumes "calculateGravitationalPull gammaSurface spotPrice = Some pull"
  shows "length (gp_attractors pull) \<le> 10 \<and> gp_direction pull \<in> {- 1, 0, 1}"
  using assms
  by (auto simp: calculateGravitationalPull_def split: option.splits prod.splits if_splits)

text \<open>The matrix of a computed surface has one row for each expiry and one cell for
  each strike.\<close>

lemma strikeLoop_row_length:
  "strikeLoop chain e ss (row, mx, mn, net) = (row', mx', mn', net')
   \<Longrightarrow> length row' = length row + length ss"
proof (induction ss arbitrary: row mx mn net)
  case Nil
  then show ?case by simp
next
  case (Cons s ss)
  let ?g = "cellGamma chain s e"
  have "strikeLoop chain e ss
          (row @ [?g], (if jgt (Fin ?g) mx then Fin ?g else mx),
           (if jlt (Fin ?g) mn then Fin ?g else mn), net + ?g) = (row', mx', mn', net')"
    using Cons.prems by (simp add: Let_def)
  from Cons.IH[OF this] show ?case by simp
qed

lemma expiryLoop_dimensions:
  "expiryLoop chain ss es (vals, mx, mn, net) = (vals', mx', mn', net')
   \<Longrightarrow> n = length ss \<Longrightarrow> \<forall>row \<in> set vals. length row = n
   \<Longrightarrow> length vals' = length vals + length es \<and> (\<forall>row \<in> set vals'. length row = n)"
proof (induction es arbitrary: vals mx mn net)
  case Nil
  then show ?case by simp
next
  case (Cons e es)
  obtain row mx1 mn1 net1 where
    row: "strikeLoop chain e ss ([], mx, mn, net) = (row, mx1, mn1, net1)"
    by (metis prod_cases4)
  have step: "expiryLoop chain ss es (vals @ [row], mx1, mn1, net1) = (vals', mx', mn', net')"
    using Cons.prems(1) row by simp
  have "length row = n" using strikeLoop_row_length[OF row] Cons.prems(2) by simp
  then have "\<forall>r \<in> set (vals @ [row]). length r = n" using Cons.prems(3) by simp
  from Cons.IH[OF step Cons.prems(2) this] show ?case by simp
qed

lemma calculateGammaSurface_dimensions:
  "length (gs_values (calculateGammaSurface chain spot))
     = length (expiries (calculateGammaSurface chain spot))
   \<and> (\<forall>row \<in> set (gs_values (calculateGammaSurface chain spot)).
         length row = length (strikes (calculateGammaSurface chain spot)))"
proof -
  let ?ss = "uniqueSorted (map od_strike chain)"
  let ?es = "uniqueSorted (map od_expiry chain)"
  obtain vals mx mn net where
    r: "expiryLoop chain ?ss ?es ([], NInf, PInf, 0) = (vals, mx, mn, net)"
    by (metis prod_cases4)
  have "\<forall>row \<in> set ([] :: real list list). length row = length ?ss" by simp
  from expiryLoop_dimensions[OF r refl this]
  have "length vals = length ?es \<and> (\<forall>row \<in> set vals. length row = length ?ss)"
    by simp
  then show ?thesis using r by (simp add: calculateGammaSurface_def Let_def)
qed

text \<open>
  Claim C8: for every market bundle, also one with an empty options chain, every
  numeric field of the state is finite, and \<open>maxGamma\<close> and \<open>minGamma\<close> are never
  \<open>NaN\<close>, \<open>+Infinity\<close> or \<open>-Infinity\<close>. \<open>calculateGammaSurface\<close> has no case for a
  surface without cells, unlike the functions next to it, which return \<open>0\<close> on empty
  input: for the empty chain its aggregates are the values the loop started from,
  \<open>maxGamma = -Infinity\<close> and \<open>minGamma = +Infinity\<close>.
\<close>

theorem empty_chain_aggregates_not_finite:
  "maxGamma (calculateGammaSurface [] 100) = NInf
   \<and> minGamma (calculateGammaSurface [] 100) = PInf
   \<and> \<not> is_finite (maxGamma (calculateGammaSurface [] 100))
   \<and> \<not> is_finite (minGamma (calculateGammaSurface [] 100))"
  by (simp add: calculateGammaSurface_def uniqueSorted_def)

end
